theory Spec2Isabelle
  imports Main "HOL-Library.Word"
begin

section \<open>Errors of the storage engine\<close>

text \<open>
  The error kinds of package errtypes that the functions below return; each Go error type is a
  string type carrying its message. \<open>OtherError\<close> stands for the errors of the operating system
  and of the standard library (a failed syscall, a failed parse).
\<close>

datatype error =
    BadRequest string
  | NotFound string
  | InternalError string
  | PermissionDenied string
  | Aborted string
  | InsufficientStorage string
  | OtherError string

fun error_msg :: "error \<Rightarrow> string" where
  "error_msg (BadRequest m) = m"
| "error_msg (NotFound m) = m"
| "error_msg (InternalError m) = m"
| "error_msg (PermissionDenied m) = m"
| "error_msg (Aborted m) = m"
| "error_msg (InsufficientStorage m) = m"
| "error_msg (OtherError m) = m"

fun isAborted :: "error + 'a \<Rightarrow> bool" where
  "isAborted (Inl (Aborted m)) = True"
| "isAborted r = False"

fun isNotFound :: "error + 'a \<Rightarrow> bool" where
  "isNotFound (Inl (NotFound m)) = True"
| "isNotFound r = False"

section \<open>GetQuota (decomposedfs)\<close>

text \<open>
  strconv.ParseUint(s, 10, 64): a non-empty string of decimal digits, without sign, whose value
  fits 64 bits.
\<close>

definition digit_val :: "char \<Rightarrow> nat option" where
  "digit_val c =
     (let n = (of_char c :: nat)
      in if 48 \<le> n \<and> n \<le> 57 then Some (n - 48) else None)"

fun parse_digits :: "nat \<Rightarrow> string \<Rightarrow> nat option" where
  "parse_digits acc [] = Some acc"
| "parse_digits acc (c # cs) =
     (case digit_val c of
        None \<Rightarrow> None
      | Some d \<Rightarrow> parse_digits (acc * 10 + d) cs)"

definition ParseUint :: "string \<Rightarrow> error + 64 word" where
  "ParseUint s =
     (if s = [] then Inl (OtherError ''invalid syntax'')
      else (case parse_digits 0 s of
             None \<Rightarrow> Inl (OtherError ''invalid syntax'')
           | Some n \<Rightarrow>
               if n < 2 ^ 64 then Inr (word_of_nat n)
               else Inl (OtherError ''value out of range'')))"

text \<open>
  The quota sentinels of package node (\<open>node.QuotaUncalculated\<close>, \<open>node.QuotaUnknown\<close>,
  \<open>node.QuotaUnlimited\<close>) are string constants declared in that package; they are
  parameters of the model.
\<close>

record quota_consts =
  QuotaUncalculated :: string
  QuotaUnknown :: string
  QuotaUnlimited :: string

record qnode =
  qn_Exists :: bool
  qn_ID :: string
  qn_ParentID :: string
  qn_Name :: string

text \<open>
  The part of the resource info that GetQuota reads: the size, and the entry \<open>quota\<close> of the
  opaque map as a pair of decoder and value (\<open>None\<close> when the opaque, its map or the entry is
  nil).
\<close>

record resinfo =
  ri_Size :: "64 word"
  ri_quota :: "(string \<times> string) option"

text \<open>
  What the collaborators of GetQuota answer: whether a reference was given, the node lookup,
  the permission check (the \<open>GetQuota\<close> permission bit), \<open>canListAllSpaces\<close>, the resource info
  and the free space of the file system below the node.
\<close>

record quota_env =
  qe_ref_given :: bool
  qe_NodeFromResource :: "error + qnode"
  qe_AssemblePermissions :: "error + bool"
  qe_canListAllSpaces :: bool
  qe_AsResourceInfo :: "error + resinfo"
  qe_GetAvailableSize :: "error + 64 word"

definition quotaStr_of :: "quota_consts \<Rightarrow> resinfo \<Rightarrow> string" where
  "quotaStr_of c ri =
     (case ri_quota ri of
        Some (decoder, v) \<Rightarrow> if decoder = ''plain'' then v else QuotaUnknown c
      | None \<Rightarrow> QuotaUnknown c)"

text \<open>The switch over the quota string: total, used and remaining from the free space.\<close>

definition quota_switch ::
  "quota_consts \<Rightarrow> string \<Rightarrow> 64 word \<Rightarrow> 64 word \<Rightarrow> error + (64 word \<times> 64 word \<times> 64 word)" where
  "quota_switch c quotaStr fsz remaining =
     (if quotaStr = QuotaUncalculated c \<or> quotaStr = QuotaUnknown c then Inr (0, fsz, remaining)
      else if quotaStr = QuotaUnlimited c then Inr (0, fsz, remaining)
      else (case ParseUint quotaStr of
             Inl e \<Rightarrow> Inl e
           | Inr tot \<Rightarrow>
               if tot \<le> remaining
               then (if fsz \<ge> tot then Inr (tot, fsz, 0)
                     else Inr (tot, fsz, tot - fsz))
               else Inr (tot, fsz, remaining)))"

definition GetQuota ::
  "quota_consts \<Rightarrow> (string \<Rightarrow> string \<Rightarrow> string) \<Rightarrow> quota_env
     \<Rightarrow> error + (64 word \<times> 64 word \<times> 64 word)" where
  "GetQuota c filepath_Join env =
     (if \<not> qe_ref_given env then Inl (BadRequest ''no space given'')
      else (case qe_NodeFromResource env of
        Inl e \<Rightarrow> Inl e
      | Inr n \<Rightarrow>
          if \<not> qn_Exists n then Inl (NotFound (filepath_Join (qn_ParentID n) (qn_Name n)))
          else (case qe_AssemblePermissions env of
            Inl e \<Rightarrow> Inl (InternalError (error_msg e))
          | Inr rp_GetQuota \<Rightarrow>
              if \<not> rp_GetQuota \<and> \<not> qe_canListAllSpaces env then Inl (PermissionDenied (qn_ID n))
              else (case qe_AsResourceInfo env of
                Inl e \<Rightarrow> Inl e
              | Inr ri \<Rightarrow>
                  (case qe_GetAvailableSize env of
                     Inl e \<Rightarrow> Inl e
                   | Inr remaining \<Rightarrow>
                       quota_switch c (quotaStr_of c ri) (ri_Size ri) remaining)))))"

section \<open>The upload session store (decomposedfs/upload/store.go)\<close>

subsection \<open>Data\<close>

text \<open>An instant of time, in nanoseconds since the Unix epoch.\<close>

type_synonym time = int

text \<open>Reading a Go map with string values: a missing key reads as the empty string.\<close>

definition md_get :: "('k \<rightharpoonup> string) \<Rightarrow> 'k \<Rightarrow> string" where
  "md_get m k = (case m k of None \<Rightarrow> [] | Some v \<Rightarrow> v)"

text \<open>
  The upload session, through the accessors that CreateNodeForUpload calls (\<open>session.ID()\<close>,
  \<open>session.Size()\<close>, \<open>session.HeaderIfMatch()\<close>, ...), and its metadata map
  \<open>session.info.MetaData\<close>. \<open>s_MTime\<close> is \<open>None\<close> when \<open>session.MTime().IsZero()\<close>.
  \<open>s_Size\<close> is an int64.
\<close>

record session =
  s_ID :: string
  s_SpaceID :: string
  s_NodeID :: string
  s_NodeParentID :: string
  s_Filename :: string
  s_Size :: "64 word"
  s_NodeExists :: bool
  s_MTime :: "time option"
  s_HeaderIfMatch :: string
  s_HeaderIfNoneMatch :: string
  s_HeaderIfUnmodifiedSince :: string
  s_MetaData :: "string \<rightharpoonup> string"

record node =
  n_SpaceID :: string
  n_ID :: string
  n_ParentID :: string
  n_Name :: string
  n_Blobsize :: "64 word"
  n_BlobID :: string

definition node_New ::
  "string \<Rightarrow> string \<Rightarrow> string \<Rightarrow> string \<Rightarrow> 64 word \<Rightarrow> string \<Rightarrow> node" where
  "node_New spaceID nodeID parentID name blobsize blobID =
     \<lparr>n_SpaceID = spaceID, n_ID = nodeID, n_ParentID = parentID, n_Name = name,
      n_Blobsize = blobsize, n_BlobID = blobID\<rparr>"

text \<open>
  The node that \<open>node.ReadNode\<close> returns for the existing target: its id, its blob size (an
  int64) and what \<open>GetMTime\<close> answers.
\<close>

record oldnode =
  old_ID :: string
  old_Blobsize :: "64 word"
  old_GetMTime :: "error + time"

text \<open>
  Functions and constants of the packages lookup, node, metadata/prefixes and time that
  store.go uses; they are declared in those packages and are parameters here.
\<close>

record lib =
  InternalPath :: "string \<Rightarrow> string \<Rightarrow> string"
  LockfilePath :: "string \<Rightarrow> string"
  RevisionIDDelimiter :: string
  CalculateEtag :: "string \<Rightarrow> time \<Rightarrow> error + string"
  Format_RFC3339Nano :: "time \<Rightarrow> string"
  Parse_RFC3339Nano :: "string \<Rightarrow> time option"
  ChecksumPrefix :: string
  TypeAttr :: string
  BlobIDAttr :: string
  BlobsizeAttr :: string
  MTimeAttr :: string
  IDAttr :: string
  ParentidAttr :: string
  NameAttr :: string
  StatusPrefix :: string
  ProcessingStatus :: string

record store =
  disableVersioning :: bool

text \<open>
  The operations on the local file system that can fail for reasons outside the model, and
  what the environment answers: the read of the space root, the advisory lock check, the
  pointer that \<open>node.ReadNode\<close> returns for the existing target (\<open>None\<close> is the nil pointer
  that comes with an error; updateExistingNode discards that error), the quota check
  (\<open>overwrite\<close>, old size, new size), for every operation and path whether the operating
  system refuses it, and the clock.
\<close>

datatype os_op =
    OpMkdirAll | OpLock | OpOpenFile | OpCreate | OpCopyMetadata | OpChtimes
  | OpSetXattrs | OpPersist

record env =
  e_ReadSpaceRoot :: "error option"
  e_CheckLock :: "error option"
  e_ReadNode :: "oldnode option"
  e_CheckQuota :: "bool \<Rightarrow> 64 word \<Rightarrow> 64 word \<Rightarrow> error option"
  e_os_error :: "os_op \<Rightarrow> string \<Rightarrow> error option"
  e_now :: time

text \<open>
  The state: the node entries on disk (the file's own mtime and its extended attributes), the
  log of metadata locks taken and released, in order, and the persisted sessions.
\<close>

record fentry =
  f_mtime :: time
  f_attrs :: "string \<rightharpoonup> string"

datatype lock_event = Locked string | Unlocked string

record world =
  files :: "string \<rightharpoonup> fentry"
  lock_log :: "lock_event list"
  persisted :: "string \<rightharpoonup> session"

text \<open>
  How a call ends: it returns its results, or it panics (here: the runtime error of a nil
  pointer dereference), in the state given. A panic runs the deferred functions registered so
  far and unwinds the callers; nothing is returned.
\<close>

datatype 'a completion = Returns 'a | Panics world

subsection \<open>Standard library\<close>

text \<open>\<open>strconv.FormatInt(i, 10)\<close>.\<close>

function show_nat :: "nat \<Rightarrow> string" where
  "show_nat n =
     (if n < 10 then [''0123456789'' ! n]
      else show_nat (n div 10) @ [''0123456789'' ! (n mod 10)])"
  by pat_completeness auto
termination
  by (relation "measure id") auto

declare show_nat.simps [simp del]

definition show_int :: "int \<Rightarrow> string" where
  "show_int i = (if i < 0 then CHR ''-'' # show_nat (nat (- i)) else show_nat (nat i))"

definition FormatInt :: "64 word \<Rightarrow> string" where
  "FormatInt x = show_int (sint x)"

text \<open>\<open>strings.HasPrefix\<close> and \<open>strings.Split(s, ",")\<close>.\<close>

definition HasPrefix :: "string \<Rightarrow> string \<Rightarrow> bool" where
  "HasPrefix s p = (take (length p) s = p)"

fun Split_comma :: "string \<Rightarrow> string list" where
  "Split_comma [] = [[]]"
| "Split_comma (c # cs) =
     (if c = CHR '','' then [] # Split_comma cs
      else (case Split_comma cs of
              [] \<Rightarrow> [[c]]
            | x # xs \<Rightarrow> (c # x) # xs))"

subsection \<open>File system operations\<close>

text \<open>
  \<open>os.Create\<close>: fails on the empty path (no such file or directory) and where the operating
  system refuses; otherwise the file exists afterwards (a new file has no attributes).
\<close>

definition os_Create :: "env \<Rightarrow> string \<Rightarrow> world \<Rightarrow> error + world" where
  "os_Create env path w =
     (if path = [] then Inl (OtherError ''open : no such file or directory'')
      else (case e_os_error env OpCreate path of
              Some e \<Rightarrow> Inl e
            | None \<Rightarrow>
                Inr (w\<lparr>files := (files w)(path \<mapsto>
                  (case files w path of
                     None \<Rightarrow> \<lparr>f_mtime = e_now env, f_attrs = Map.empty\<rparr>
                   | Some f \<Rightarrow> f\<lparr>f_mtime := e_now env\<rparr>))\<rparr>)))"

text \<open>\<open>os.OpenFile(path, O_CREATE|O_EXCL)\<close>: fails when the file exists.\<close>

definition os_OpenFile_excl :: "env \<Rightarrow> string \<Rightarrow> world \<Rightarrow> error + world" where
  "os_OpenFile_excl env path w =
     (if path = [] then Inl (OtherError ''open : no such file or directory'')
      else if files w path \<noteq> None then Inl (OtherError ''file exists'')
      else (case e_os_error env OpOpenFile path of
              Some e \<Rightarrow> Inl e
            | None \<Rightarrow>
                Inr (w\<lparr>files := (files w)(path \<mapsto>
                       \<lparr>f_mtime = e_now env, f_attrs = Map.empty\<rparr>)\<rparr>)))"

text \<open>\<open>os.Chtimes(path, t, t)\<close>: fails when the file does not exist.\<close>

definition os_Chtimes :: "env \<Rightarrow> string \<Rightarrow> time \<Rightarrow> world \<Rightarrow> error + world" where
  "os_Chtimes env path t w =
     (case files w path of
        None \<Rightarrow> Inl (OtherError ''chtimes: no such file or directory'')
      | Some f \<Rightarrow>
          (case e_os_error env OpChtimes path of
             Some e \<Rightarrow> Inl e
           | None \<Rightarrow> Inr (w\<lparr>files := (files w)(path \<mapsto> f\<lparr>f_mtime := t\<rparr>)\<rparr>)))"

text \<open>
  Modelled from the spec: \<open>CopyMetadataWithSourceLock\<close>, a method of the path lookup
  (package lookup). Spec 4.1, \<open>copy_selected(src_path, dst_path, predicate)\<close>: "copies only attributes
  for which predicate(key) == true". The attributes selected are written to the target, whose
  other attributes stay.
\<close>

definition CopyMetadataWithSourceLock ::
  "env \<Rightarrow> string \<Rightarrow> string \<Rightarrow> (string \<Rightarrow> bool) \<Rightarrow> world \<Rightarrow> error + world" where
  "CopyMetadataWithSourceLock env src dst filt w =
     (case files w src of
        None \<Rightarrow> Inl (OtherError ''no such file or directory'')
      | Some fs \<Rightarrow>
          (case files w dst of
             None \<Rightarrow> Inl (OtherError ''no such file or directory'')
           | Some fd \<Rightarrow>
               (case e_os_error env OpCopyMetadata dst of
                  Some e \<Rightarrow> Inl e
                | None \<Rightarrow>
                    Inr (w\<lparr>files := (files w)(dst \<mapsto>
                      fd\<lparr>f_attrs := (\<lambda>k. if filt k \<and> f_attrs fs k \<noteq> None
                                           then f_attrs fs k else f_attrs fd k)\<rparr>)\<rparr>))))"

text \<open>
  Modelled from the spec: \<open>Node.SetXattrsWithContext\<close>, a method of package node. Spec 4.4,
  \<open>set_metadata(map)\<close>, and 4.6 step 7: "overwrite the live node's attributes": the attributes
  given are written to the node's entry.
\<close>

definition SetXattrs :: "env \<Rightarrow> string \<Rightarrow> (string \<rightharpoonup> string) \<Rightarrow> world \<Rightarrow> error + world" where
  "SetXattrs env path attrs w =
     (case files w path of
        None \<Rightarrow> Inl (OtherError ''no such file or directory'')
      | Some f \<Rightarrow>
          (case e_os_error env OpSetXattrs path of
             Some e \<Rightarrow> Inl e
           | None \<Rightarrow> Inr (w\<lparr>files := (files w)(path \<mapsto> f\<lparr>f_attrs := f_attrs f ++ attrs\<rparr>)\<rparr>)))"

text \<open>
  Modelled from the spec: \<open>session.Persist\<close>, a method of the upload session. Spec 4.6 step 8:
  "Persist the session".
\<close>

definition Persist :: "env \<Rightarrow> session \<Rightarrow> world \<Rightarrow> error + world" where
  "Persist env s w =
     (case e_os_error env OpPersist (s_ID s) of
        Some e \<Rightarrow> Inl e
      | None \<Rightarrow> Inr (w\<lparr>persisted := (persisted w)(s_ID s \<mapsto> s)\<rparr>))"

subsection \<open>initNewNode\<close>

text \<open>
  The result is the unlock function (\<open>None\<close> for nil, otherwise the lock it releases), the
  error, and the session and the state as the call leaves them. The directory of the node is
  not part of the state: \<open>os.MkdirAll\<close> only succeeds or fails.
\<close>

definition initNewNode ::
  "lib \<Rightarrow> env \<Rightarrow> session \<Rightarrow> node \<Rightarrow> 64 word \<Rightarrow> world
     \<Rightarrow> string option \<times> error option \<times> session \<times> world" where
  "initNewNode l env s n fsize w =
     (let path = InternalPath l (n_SpaceID n) (n_ID n) in
      case e_os_error env OpMkdirAll path of
        Some e \<Rightarrow> (None, Some e, s, w)
      | None \<Rightarrow>
          (case e_os_error env OpLock path of
             Some e \<Rightarrow> (None, Some e, s, w)
           | None \<Rightarrow>
               (let unlock = Some path;
                    w1 = w\<lparr>lock_log := lock_log w @ [Locked path]\<rparr>
                in case os_OpenFile_excl env path w1 of
                     Inl e \<Rightarrow> (unlock, Some e, s, w1)
                   | Inr w2 \<Rightarrow>
                       (case e_CheckQuota env False 0 fsize of
                          Some e \<Rightarrow> (unlock, Some e, s, w2)
                        | None \<Rightarrow>
                            (unlock, None,
                             s\<lparr>s_MetaData := (s_MetaData s)(''sizeDiff'' \<mapsto> FormatInt fsize)\<rparr>,
                             w2)))))"

subsection \<open>updateExistingNode\<close>

text \<open>The client preconditions (lines 329 to 359): the error they end in, if any.\<close>

definition check_preconditions :: "lib \<Rightarrow> session \<Rightarrow> string \<Rightarrow> time \<Rightarrow> error option" where
  "check_preconditions l s oldNodeEtag oldNodeMtime =
     (if s_HeaderIfMatch s \<noteq> [] \<and> s_HeaderIfMatch s \<noteq> oldNodeEtag
      then Some (Aborted ''etag mismatch'')
      else if s_HeaderIfNoneMatch s \<noteq> [] \<and> s_HeaderIfNoneMatch s = ''*''
      then Some (Aborted ''etag mismatch, resource exists'')
      else if s_HeaderIfNoneMatch s \<noteq> []
              \<and> oldNodeEtag \<in> set (Split_comma (s_HeaderIfNoneMatch s))
      then Some (Aborted ''etag mismatch'')
      else if s_HeaderIfUnmodifiedSince s \<noteq> []
      then (case Parse_RFC3339Nano l (s_HeaderIfUnmodifiedSince s) of
              None \<Rightarrow> Some (InternalError ''failed to parse if-unmodified-since time'')
            | Some ifUnmodifiedSince \<Rightarrow>
                if oldNodeMtime > ifUnmodifiedSince
                then Some (Aborted ''if-unmodified-since mismatch'')
                else None)
      else None)"

text \<open>The attributes copied to a version node (lines 371 to 377).\<close>

definition version_attr :: "lib \<Rightarrow> string \<Rightarrow> bool" where
  "version_attr l attributeName =
     (HasPrefix attributeName (ChecksumPrefix l)
      \<or> attributeName = TypeAttr l
      \<or> attributeName = BlobIDAttr l
      \<or> attributeName = BlobsizeAttr l
      \<or> attributeName = MTimeAttr l)"

text \<open>
  The version node (lines 361 to 380): it is created, and the metadata copied, at
  \<open>session.info.MetaData["versionsPath"]\<close> as the session holds it when the function is
  entered. The entry is set to \<open>versionPath\<close> only afterwards, in \<open>record_version\<close>
  (lines 381 to 389), which also records the size difference and sets the mtime of the file
  at that path.
\<close>

definition record_version ::
  "env \<Rightarrow> session \<Rightarrow> 64 word \<Rightarrow> oldnode \<Rightarrow> time \<Rightarrow> string \<Rightarrow> world
     \<Rightarrow> error option \<times> session \<times> world" where
  "record_version env s fsize old oldNodeMtime versionPath w =
     (let s1 = s\<lparr>s_MetaData := (s_MetaData s)
                  (''sizeDiff'' \<mapsto> FormatInt (fsize - old_Blobsize old),
                   ''versionsPath'' \<mapsto> versionPath)\<rparr>
      in case os_Chtimes env (md_get (s_MetaData s1) ''versionsPath'') oldNodeMtime w of
           Inl e \<Rightarrow>
             (Some (InternalError
                (''failed to change mtime of version node: '' @ error_msg e)), s1, w)
         | Inr w1 \<Rightarrow> (None, s1, w1))"

definition create_version ::
  "lib \<Rightarrow> store \<Rightarrow> env \<Rightarrow> session \<Rightarrow> node \<Rightarrow> string \<Rightarrow> 64 word \<Rightarrow> oldnode \<Rightarrow> time
     \<Rightarrow> world \<Rightarrow> error option \<times> session \<times> world" where
  "create_version l st env s n spaceID fsize old oldNodeMtime w =
     (let targetPath = InternalPath l (n_SpaceID n) (n_ID n) in
      if \<not> disableVersioning st
      then (let versionPath = InternalPath l spaceID
                  (n_ID n @ RevisionIDDelimiter l @ Format_RFC3339Nano l oldNodeMtime)
            in case os_Create env (md_get (s_MetaData s) ''versionsPath'') w of
                 Inl e \<Rightarrow> (Some e, s, w)
               | Inr w1 \<Rightarrow>
                   (case CopyMetadataWithSourceLock env targetPath
                           (md_get (s_MetaData s) ''versionsPath'') (version_attr l) w1 of
                      Inl e \<Rightarrow> (Some e, s, w1)
                    | Inr w2 \<Rightarrow>
                        record_version env s fsize old oldNodeMtime versionPath w2))
      else record_version env s fsize old oldNodeMtime targetPath w)"

text \<open>
  The lock file is opened first (line 302). The result of \<open>node.ReadNode\<close> is read at
  \<open>old.Blobsize\<close> (line 316) without a look at the error: with a nil pointer the function
  panics there, the lock file open.
\<close>

definition updateExistingNode ::
  "lib \<Rightarrow> store \<Rightarrow> env \<Rightarrow> session \<Rightarrow> node \<Rightarrow> string \<Rightarrow> 64 word \<Rightarrow> world
     \<Rightarrow> (string option \<times> error option \<times> session \<times> world) completion" where
  "updateExistingNode l st env s n spaceID fsize w =
     (let targetPath = InternalPath l (n_SpaceID n) (n_ID n);
          lockfile = LockfilePath l targetPath
      in case e_os_error env OpLock lockfile of
           Some e \<Rightarrow> Returns (None, Some e, s, w)
         | None \<Rightarrow>
             (let unlock = Some lockfile;
                  w1 = w\<lparr>lock_log := lock_log w @ [Locked lockfile]\<rparr>
              in case e_ReadNode env of
                   None \<Rightarrow> Panics w1
                 | Some old \<Rightarrow>
                     Returns
                       (case e_CheckQuota env True (old_Blobsize old) fsize of
                          Some e \<Rightarrow> (unlock, Some e, s, w1)
                        | None \<Rightarrow>
                            (case old_GetMTime old of
                               Inl e \<Rightarrow> (unlock, Some e, s, w1)
                             | Inr oldNodeMtime \<Rightarrow>
                                 (case CalculateEtag l (old_ID old) oldNodeMtime of
                                    Inl e \<Rightarrow> (unlock, Some e, s, w1)
                                  | Inr oldNodeEtag \<Rightarrow>
                                      (case check_preconditions l s oldNodeEtag oldNodeMtime of
                                         Some e \<Rightarrow> (unlock, Some e, s, w1)
                                       | None \<Rightarrow>
                                           (case create_version l st env s n spaceID fsize old
                                                   oldNodeMtime w1 of
                                              (err, s1, w2) \<Rightarrow> (unlock, err, s1, w2))))))))"

subsection \<open>CreateNodeForUpload\<close>

text \<open>The deferred function of CreateNodeForUpload: it calls \<open>unlock\<close> unless it is nil.\<close>

definition run_deferred_unlock :: "string option \<Rightarrow> world \<Rightarrow> world" where
  "run_deferred_unlock unlock w =
     (case unlock of
        None \<Rightarrow> w
      | Some p \<Rightarrow> w\<lparr>lock_log := lock_log w @ [Unlocked p]\<rparr>)"

text \<open>The attributes written to the node (lines 241 to 255).\<close>

definition technical_attrs ::
  "lib \<Rightarrow> env \<Rightarrow> session \<Rightarrow> node \<Rightarrow> (string \<rightharpoonup> string) \<Rightarrow> (string \<rightharpoonup> string)" where
  "technical_attrs l env s n initAttrs =
     (let mtime = (case s_MTime s of None \<Rightarrow> e_now env | Some t \<Rightarrow> t)
      in initAttrs
           (IDAttr l \<mapsto> n_ID n,
            MTimeAttr l \<mapsto> Format_RFC3339Nano l mtime,
            TypeAttr l \<mapsto> FormatInt 1,
            ParentidAttr l \<mapsto> n_ParentID n,
            NameAttr l \<mapsto> n_Name n,
            BlobIDAttr l \<mapsto> n_BlobID n,
            BlobsizeAttr l \<mapsto> FormatInt (n_Blobsize n),
            StatusPrefix l \<mapsto> ProcessingStatus l @ s_ID s))"

text \<open>
  The part of CreateNodeForUpload after the deferred unlock is registered (lines 237 to 267).
\<close>

definition write_node ::
  "lib \<Rightarrow> env \<Rightarrow> session \<Rightarrow> node \<Rightarrow> (string \<rightharpoonup> string) \<Rightarrow> error option \<Rightarrow> world
     \<Rightarrow> (error + node) \<times> world" where
  "write_node l env s n initAttrs err w =
     (case err of
        Some e \<Rightarrow> (Inl e, w)
      | None \<Rightarrow>
          (case SetXattrs env (InternalPath l (n_SpaceID n) (n_ID n))
                  (technical_attrs l env s n initAttrs) w of
             Inl e \<Rightarrow>
               (Inl (OtherError (''Decomposedfs: could not write metadata: '' @ error_msg e)), w)
           | Inr w1 \<Rightarrow>
               (case Persist env s w1 of
                  Inl e \<Rightarrow> (Inl e, w1)
                | Inr w2 \<Rightarrow> (Inr n, w2))))"

text \<open>
  CreateNodeForUpload. The result is the node or the error, the session (its metadata map is
  updated in place) and the state. The id cache of the lookup (\<open>CacheID\<close>, whose error is only
  logged) is not part of the state. The function that unlocks is deferred at line 227, after
  updateExistingNode or initNewNode has returned: when the call panics, only \<open>span.End\<close> is
  deferred, and the panic leaves CreateNodeForUpload in the state it was raised in.
\<close>

definition CreateNodeForUpload ::
  "lib \<Rightarrow> store \<Rightarrow> env \<Rightarrow> session \<Rightarrow> (string \<rightharpoonup> string) \<Rightarrow> world
     \<Rightarrow> ((error + node) \<times> session \<times> world) completion" where
  "CreateNodeForUpload l st env s initAttrs w =
     (let n = node_New (s_SpaceID s) (s_NodeID s) (s_NodeParentID s) (s_Filename s)
                (s_Size s) (s_ID s)
      in case e_ReadSpaceRoot env of
           Some e \<Rightarrow> Returns (Inl e, s, w)
         | None \<Rightarrow>
             (case e_CheckLock env of
                Some e \<Rightarrow> Returns (Inl e, s, w)
              | None \<Rightarrow>
                  (case (if s_NodeExists s
                         then updateExistingNode l st env s n (s_SpaceID s) (s_Size s) w
                         else Returns (initNewNode l env s n (s_Size s) w)) of
                     Panics wp \<Rightarrow> Panics wp
                   | Returns (unlock, err, s1, w1) \<Rightarrow>
                       (case write_node l env s1 n initAttrs err w1 of
                          (res, w2) \<Rightarrow> Returns (res, s1, run_deferred_unlock unlock w2)))))"

subsection \<open>Locks outstanding\<close>

text \<open>The locks taken and not yet released, from the log of lock events.\<close>

fun lock_step :: "string list \<Rightarrow> lock_event \<Rightarrow> string list" where
  "lock_step held (Locked p) = p # held"
| "lock_step held (Unlocked p) = remove1 p held"

definition held_locks :: "lock_event list \<Rightarrow> string list" where
  "held_locks evs = foldl lock_step [] evs"

section \<open>The post-processing consumer (decomposedfs, Postprocessing)\<close>

subsection \<open>Events\<close>

text \<open>
  Modelled from the spec: the constants \<open>events.PPOutcomeAbort\<close>, \<open>events.PPOutcomeContinue\<close>
  and \<open>events.PPOutcomeDelete\<close> of the string type \<open>PostprocessingOutcome\<close>, declared in
  package events. Spec 4.8: "outcome \<open>\<in>\<close> {continue, abort, delete}".
\<close>

definition PPOutcomeAbort :: string where
  "PPOutcomeAbort = ''abort''"

definition PPOutcomeContinue :: string where
  "PPOutcomeContinue = ''continue''"

definition PPOutcomeDelete :: string where
  "PPOutcomeDelete = ''delete''"

record resource_id =
  rid_StorageId :: string
  rid_SpaceId :: string
  rid_OpaqueId :: string

record reference =
  ref_ResourceId :: resource_id
  ref_Path :: string

record PostprocessingFinished =
  pf_UploadID :: string
  pf_Outcome :: string
  pf_ExecutingUser :: string

record VirusscanFinished =
  vf_UploadID :: string
  vf_ResourceID :: resource_id
  vf_Outcome :: string
  vf_ErrorMsg :: string
  vf_Description :: string
  vf_Scandate :: time
  vf_ExecutingUser :: string

record UploadReady =
  ur_UploadID :: string
  ur_Failed :: bool
  ur_ExecutingUser :: string
  ur_FileRef :: reference

datatype event =
    EvPostprocessingFinished PostprocessingFinished
  | EvVirusscanFinished VirusscanFinished
  | EvUnknown string

subsection \<open>State and collaborators\<close>

text \<open>The upload as \<open>upload.Get\<close> loads it: \<open>Info.Storage\<close> and \<open>Info.MetaData\<close>.\<close>

record upload =
  up_ID :: string
  up_Storage :: "string \<rightharpoonup> string"
  up_MetaData :: "string \<rightharpoonup> string"

record pnode =
  pn_SpaceID :: string
  pn_ID :: string
  pn_ParentID :: string

text \<open>A file version as \<open>ListRevisions\<close> returns it; the mtime is a uint64.\<close>

record revision =
  rev_Key :: string
  rev_Mtime :: "64 word"

text \<open>The calls that the consumer makes on the storage, in order.\<close>

datatype fs_call =
    CallDelete resource_id
  | CallPurgeRecycleItem resource_id string string
  | CallRestoreRevision resource_id string
  | CallDeleteRevision resource_id string
  | CallSetScanData pnode string time

text \<open>
  The state of the consumer: the storage (nodes, blobs, revisions, trash; its type is a
  parameter), the persisted upload sessions, the events published, the entries removed from the
  stat cache (user, space id, node id) and the log of calls on the storage.
\<close>

record 'fs pp_state =
  pp_fs :: 'fs
  pp_uploads :: "string \<rightharpoonup> upload"
  pp_published :: "UploadReady list"
  pp_cache_removed :: "(string \<times> string \<times> string) list"
  pp_calls :: "fs_call list"

text \<open>
  The functions of the packages upload, node, tree, lookup and events, and the methods of
  Decomposedfs for revisions and the recycle bin, that Postprocessing calls. They are
  parameters: each takes the storage and returns it with its error.
  \<open>op_Propagate\<close> stands for \<open>SetTMTime(now)\<close> followed by \<open>Propagate\<close>, and
  \<open>op_cleanup_node\<close> for what \<open>upload.Cleanup\<close> does to the node (reverting its metadata
  when the upload failed, removing the processing status); the errors of both are only logged.
\<close>

record 'fs pp_ops =
  op_Finalize :: "upload \<Rightarrow> 'fs \<Rightarrow> error option \<times> 'fs"
  op_ReadNode :: "string \<Rightarrow> string \<Rightarrow> 'fs \<Rightarrow> error + pnode"
  op_Propagate :: "pnode \<Rightarrow> time \<Rightarrow> 'fs \<Rightarrow> 'fs"
  op_cleanup_node :: "upload \<Rightarrow> pnode \<Rightarrow> bool \<Rightarrow> 'fs \<Rightarrow> 'fs"
  op_Publish :: "UploadReady \<Rightarrow> error option"
  op_MakeRelativePath_Join :: "string \<Rightarrow> string \<Rightarrow> string"
  op_NodeFromResource :: "resource_id \<Rightarrow> 'fs \<Rightarrow> error + pnode"
  op_ListRevisions :: "resource_id \<Rightarrow> 'fs \<Rightarrow> revision list \<times> error option"
  op_Delete :: "resource_id \<Rightarrow> 'fs \<Rightarrow> error option \<times> 'fs"
  op_PurgeRecycleItem :: "resource_id \<Rightarrow> string \<Rightarrow> string \<Rightarrow> 'fs \<Rightarrow> error option \<times> 'fs"
  op_RestoreRevision :: "resource_id \<Rightarrow> string \<Rightarrow> 'fs \<Rightarrow> error option \<times> 'fs"
  op_DeleteRevision :: "resource_id \<Rightarrow> string \<Rightarrow> 'fs \<Rightarrow> error option \<times> 'fs"
  op_SetScanData :: "pnode \<Rightarrow> string \<Rightarrow> time \<Rightarrow> 'fs \<Rightarrow> error option \<times> 'fs"

text \<open>
  Modelled from the spec: \<open>upload.Get\<close>, a function of package upload. Spec 4.6:
  "\<open>get(id)\<close> \<open>\<rightarrow>\<close> session | NotFound: loads the persisted \<open>.info\<close> record".
\<close>

definition upload_Get :: "'fs pp_state \<Rightarrow> string \<Rightarrow> error + upload" where
  "upload_Get st uploadID =
     (case pp_uploads st uploadID of
        None \<Rightarrow> Inl (NotFound uploadID)
      | Some up \<Rightarrow> Inr up)"

text \<open>
  Modelled from the spec: \<open>upload.Cleanup(up, failed, keepUpload)\<close>, a function of package
  upload. Spec 4.6: "\<open>cleanup(session, revert_node_metadata, keep_upload, unmark_processing)\<close>:
  deletes session bin and info if \<open>!keep_upload\<close>; if \<open>revert_node_metadata\<close> and the target
  previously existed, restores prior attributes from the version node; if
  \<open>unmark_processing\<close>, removes the processing status". What it does to the node is the
  parameter \<open>op_cleanup_node\<close>.
\<close>

definition upload_Cleanup ::
  "'fs pp_ops \<Rightarrow> upload \<Rightarrow> pnode \<Rightarrow> bool \<Rightarrow> bool \<Rightarrow> 'fs pp_state \<Rightarrow> 'fs pp_state" where
  "upload_Cleanup ops up n failed keepUpload st =
     st\<lparr>pp_fs := op_cleanup_node ops up n failed (pp_fs st),
        pp_uploads := (if keepUpload then pp_uploads st
                       else (pp_uploads st)(up_ID up := None))\<rparr>"

subsection \<open>PostprocessingFinished\<close>

text \<open>
  The switch over the outcome (lines 234 to 249): \<open>failed\<close>, \<open>keepUpload\<close> and the storage.
  The default clause comes first in the source and falls through to the clause of
  \<open>PPOutcomeAbort\<close>; it is taken when no other clause matches.
\<close>

definition pp_outcome ::
  "'fs pp_ops \<Rightarrow> upload \<Rightarrow> string \<Rightarrow> 'fs \<Rightarrow> bool \<times> bool \<times> 'fs" where
  "pp_outcome ops up outcome fs =
     (if outcome = PPOutcomeAbort then (True, True, fs)
      else if outcome = PPOutcomeContinue
      then (case op_Finalize ops up fs of
              (Some e, fs1) \<Rightarrow> (True, True, fs1)
            | (None, fs1) \<Rightarrow> (False, False, fs1))
      else if outcome = PPOutcomeDelete then (True, False, fs)
      else (True, True, fs))"

definition make_UploadReady ::
  "'fs pp_ops \<Rightarrow> PostprocessingFinished \<Rightarrow> upload \<Rightarrow> bool \<Rightarrow> UploadReady" where
  "make_UploadReady ops ev up failed =
     \<lparr>ur_UploadID = pf_UploadID ev,
      ur_Failed = failed,
      ur_ExecutingUser = pf_ExecutingUser ev,
      ur_FileRef =
        \<lparr>ref_ResourceId =
           \<lparr>rid_StorageId = md_get (up_MetaData up) ''providerID'',
            rid_SpaceId = md_get (up_Storage up) ''SpaceRoot'',
            rid_OpaqueId = md_get (up_Storage up) ''SpaceRoot''\<rparr>,
         ref_Path = op_MakeRelativePath_Join ops (md_get (up_MetaData up) ''dir'')
                      (md_get (up_MetaData up) ''filename'')\<rparr>\<rparr>"

definition publish :: "'fs pp_ops \<Rightarrow> UploadReady \<Rightarrow> 'fs pp_state \<Rightarrow> 'fs pp_state" where
  "publish ops r st =
     (case op_Publish ops r of
        Some e \<Rightarrow> st
      | None \<Rightarrow> st\<lparr>pp_published := pp_published st @ [r]\<rparr>)"

text \<open>One PostprocessingFinished event, handled at time \<open>now\<close> (lines 222 to 291).\<close>

definition handle_PostprocessingFinished ::
  "'fs pp_ops \<Rightarrow> time \<Rightarrow> PostprocessingFinished \<Rightarrow> 'fs pp_state \<Rightarrow> 'fs pp_state" where
  "handle_PostprocessingFinished ops now ev st =
     (case upload_Get st (pf_UploadID ev) of
        Inl e \<Rightarrow> st
      | Inr up \<Rightarrow>
          (case pp_outcome ops up (pf_Outcome ev) (pp_fs st) of
             (failed, keepUpload, fs1) \<Rightarrow>
               (case op_ReadNode ops (md_get (up_Storage up) ''SpaceRoot'')
                       (md_get (up_Storage up) ''NodeId'') fs1 of
                  Inl e \<Rightarrow> st\<lparr>pp_fs := fs1\<rparr>
                | Inr n \<Rightarrow>
                    (let fs2 =
                       (case op_ReadNode ops (md_get (up_Storage up) ''SpaceRoot'')
                               (pn_ParentID n) fs1 of
                          Inl e \<Rightarrow> fs1
                        | Inr p \<Rightarrow> op_Propagate ops p now fs1);
                         st1 = st\<lparr>pp_fs := fs2,
                                  pp_cache_removed := pp_cache_removed st
                                    @ [(pf_ExecutingUser ev, pn_SpaceID n, pn_ID n)]\<rparr>;
                         st2 = upload_Cleanup ops up n failed keepUpload st1
                     in publish ops (make_UploadReady ops ev up failed) st2))))"

subsection \<open>VirusscanFinished\<close>

text \<open>
  The map of the versions by mtime and the newest mtime (lines 341 to 348); \<open>nv\<close> starts at 0.
\<close>

fun collect_versions ::
  "revision list \<Rightarrow> (64 word \<rightharpoonup> string) \<Rightarrow> 64 word \<Rightarrow> (64 word \<rightharpoonup> string) \<times> 64 word" where
  "collect_versions [] versions nv = (versions, nv)"
| "collect_versions (v # vs) versions nv =
     collect_versions vs (versions(rev_Mtime v \<mapsto> rev_Key v))
       (if rev_Mtime v > nv then rev_Mtime v else nv)"

text \<open>
  The loop that deletes the revisions that were not there before (lines 362 to 371); the error
  of \<open>DeleteRevision\<close> is only logged.
\<close>

fun delete_new_revisions ::
  "'fs pp_ops \<Rightarrow> resource_id \<Rightarrow> (64 word \<rightharpoonup> string) \<Rightarrow> revision list \<Rightarrow> 'fs pp_state
     \<Rightarrow> 'fs pp_state" where
  "delete_new_revisions ops rid versions [] st = st"
| "delete_new_revisions ops rid versions (v # vs) st =
     (if versions (rev_Mtime v) \<noteq> None then delete_new_revisions ops rid versions vs st
      else delete_new_revisions ops rid versions vs
             (st\<lparr>pp_fs := snd (op_DeleteRevision ops rid (rev_Key v) (pp_fs st)),
                 pp_calls := pp_calls st @ [CallDeleteRevision rid (rev_Key v)]\<rparr>))"

definition remove_stat :: "string \<Rightarrow> pnode \<Rightarrow> 'fs pp_state \<Rightarrow> 'fs pp_state" where
  "remove_stat user n st =
     st\<lparr>pp_cache_removed := pp_cache_removed st @ [(user, pn_SpaceID n, pn_ID n)]\<rparr>"

text \<open>The on-demand scan that asks for deletion (lines 313 to 376).\<close>

definition virusscan_delete ::
  "'fs pp_ops \<Rightarrow> VirusscanFinished \<Rightarrow> pnode \<Rightarrow> 'fs pp_state \<Rightarrow> 'fs pp_state" where
  "virusscan_delete ops ev n st =
     (let rid = vf_ResourceID ev in
      case op_ListRevisions ops rid (pp_fs st) of
        (revs, err) \<Rightarrow>
          if revs = []
          then (case op_Delete ops rid (pp_fs st) of
                  (Some e, fs1) \<Rightarrow>
                    st\<lparr>pp_fs := fs1, pp_calls := pp_calls st @ [CallDelete rid]\<rparr>
                | (None, fs1) \<Rightarrow>
                    (let root = \<lparr>rid_StorageId = [], rid_SpaceId = pn_SpaceID n,
                                 rid_OpaqueId = pn_SpaceID n\<rparr>
                     in remove_stat (vf_ExecutingUser ev) n
                          (st\<lparr>pp_fs := snd (op_PurgeRecycleItem ops root (pn_ID n) ''/'' fs1),
                              pp_calls := pp_calls st
                                @ [CallDelete rid, CallPurgeRecycleItem root (pn_ID n) ''/'']\<rparr>)))
          else (case collect_versions revs Map.empty 0 of
                  (versions, nv) \<Rightarrow>
                    (case op_RestoreRevision ops rid (md_get versions nv) (pp_fs st) of
                       (Some e, fs1) \<Rightarrow>
                         st\<lparr>pp_fs := fs1,
                            pp_calls := pp_calls st
                              @ [CallRestoreRevision rid (md_get versions nv)]\<rparr>
                     | (None, fs1) \<Rightarrow>
                         remove_stat (vf_ExecutingUser ev) n
                           (delete_new_revisions ops rid versions
                              (fst (op_ListRevisions ops rid fs1))
                              (st\<lparr>pp_fs := fs1,
                                  pp_calls := pp_calls st
                                    @ [CallRestoreRevision rid (md_get versions nv)]\<rparr>)))))"

text \<open>Storing the scan result on the node (lines 395 to 401).\<close>

definition set_scan_data ::
  "'fs pp_ops \<Rightarrow> VirusscanFinished \<Rightarrow> pnode \<Rightarrow> 'fs pp_state \<Rightarrow> 'fs pp_state" where
  "set_scan_data ops ev n st =
     (case op_SetScanData ops n (vf_Description ev) (vf_Scandate ev) (pp_fs st) of
        (Some e, fs1) \<Rightarrow>
          st\<lparr>pp_fs := fs1,
             pp_calls := pp_calls st
               @ [CallSetScanData n (vf_Description ev) (vf_Scandate ev)]\<rparr>
      | (None, fs1) \<Rightarrow>
          remove_stat (vf_ExecutingUser ev) n
            (st\<lparr>pp_fs := fs1,
                pp_calls := pp_calls st
                  @ [CallSetScanData n (vf_Description ev) (vf_Scandate ev)]\<rparr>))"

text \<open>One VirusscanFinished event (lines 292 to 401).\<close>

definition handle_VirusscanFinished ::
  "'fs pp_ops \<Rightarrow> VirusscanFinished \<Rightarrow> 'fs pp_state \<Rightarrow> 'fs pp_state" where
  "handle_VirusscanFinished ops ev st =
     (if vf_ErrorMsg ev \<noteq> [] then st
      else if vf_UploadID ev = []
      then (case op_NodeFromResource ops (vf_ResourceID ev) (pp_fs st) of
              Inl e \<Rightarrow> st
            | Inr n \<Rightarrow>
                if vf_Outcome ev = PPOutcomeDelete then virusscan_delete ops ev n st
                else set_scan_data ops ev n st)
      else (case upload_Get st (vf_UploadID ev) of
              Inl e \<Rightarrow> st
            | Inr up \<Rightarrow>
                (case op_ReadNode ops (md_get (up_Storage up) ''SpaceRoot'')
                        (md_get (up_Storage up) ''NodeId'') (pp_fs st) of
                   Inl e \<Rightarrow> st
                 | Inr n \<Rightarrow> set_scan_data ops ev n st)))"

subsection \<open>The consumer loop\<close>

text \<open>
  Postprocessing handles the events of the channel in order; each comes with the time at
  which it is handled.
\<close>

definition handle_event :: "'fs pp_ops \<Rightarrow> time \<Rightarrow> event \<Rightarrow> 'fs pp_state \<Rightarrow> 'fs pp_state" where
  "handle_event ops now e st =
     (case e of
        EvPostprocessingFinished ev \<Rightarrow> handle_PostprocessingFinished ops now ev st
      | EvVirusscanFinished ev \<Rightarrow> handle_VirusscanFinished ops ev st
      | EvUnknown x \<Rightarrow> st)"

fun Postprocessing :: "'fs pp_ops \<Rightarrow> (event \<times> time) list \<Rightarrow> 'fs pp_state \<Rightarrow> 'fs pp_state" where
  "Postprocessing ops [] st = st"
| "Postprocessing ops ((e, now) # ch) st = Postprocessing ops ch (handle_event ops now e st)"

section \<open>The app provider HTTP service (handleNew)\<close>

text \<open>
  The error codes passed to \<open>writeError\<close>, and the response that handleNew writes: an error
  with its code and message, or the JSON body with the id of the new file.
\<close>

datatype appError =
    appErrorNotFound
  | appErrorAlreadyExists
  | appErrorUnimplemented
  | appErrorInvalidParameter
  | appErrorServerError

datatype app_response =
    RespError appError string
  | RespFileID resource_id

datatype rpc_code = CODE_OK | CODE_NOT_FOUND | CODE_OTHER

datatype resource_type = RESOURCE_TYPE_FILE | RESOURCE_TYPE_CONTAINER | RESOURCE_TYPE_OTHER

record stat_response =
  sr_Code :: rpc_code
  sr_Type :: resource_type
  sr_Path :: string
  sr_Id :: resource_id

record upload_protocol =
  proto_Protocol :: string
  proto_UploadEndpoint :: string
  proto_Token :: string

record initiate_response =
  ir_Code :: rpc_code
  ir_Protocols :: "upload_protocol list"

text \<open>The query parameters of the request; \<open>Query().Get\<close> reads a missing one as empty.\<close>

record new_request =
  q_template :: string
  q_parent_container_id :: string
  q_filename :: string

text \<open>The calls that handleNew issues, in order.\<close>

datatype gw_call =
    GwStatId resource_id
  | GwStatPath string
  | GwInitiateFileUpload string
  | GwHttpPut string string

text \<open>
  What the collaborators answer (\<open>None\<close>: the call itself fails): the gateway client pool, the
  stat of the parent container, the stat of the file before and after the upload, the
  initiation of the upload, the construction and the sending of the PUT request (the HTTP
  status), and the writing of the response. \<open>OwnCloudResourceIDUnwrap\<close> and the path of the
  file under the parent (\<open>path.Join\<close> with \<open>utils.MakeRelativePath\<close>) are functions of
  other packages and are parameters.
\<close>

record new_env =
  ne_GetGatewayServiceClient :: bool
  ne_OwnCloudResourceIDUnwrap :: "string \<Rightarrow> resource_id option"
  ne_file_path :: "string \<Rightarrow> string \<Rightarrow> string"
  ne_StatParent :: "stat_response option"
  ne_StatFile :: "stat_response option"
  ne_InitiateFileUpload :: "initiate_response option"
  ne_NewRequest :: bool
  ne_HttpPut :: "nat option"
  ne_StatCreated :: "stat_response option"
  ne_Marshal :: bool
  ne_Write :: bool

text \<open>
  \<open>path.Split\<close>: the path is cut after its last slash; without a slash the directory is
  empty and the file is the whole path.
\<close>

definition path_Split :: "string \<Rightarrow> string \<times> string" where
  "path_Split p =
     (let k = length (takeWhile (\<lambda>c. c \<noteq> CHR ''/'') (rev p))
      in (take (length p - k) p, drop (length p - k) p))"

text \<open>The endpoint and the token of the last protocol named \<open>simple\<close> (lines 232 to 237).\<close>

fun simple_protocol :: "upload_protocol list \<Rightarrow> string \<times> string \<Rightarrow> string \<times> string" where
  "simple_protocol [] acc = acc"
| "simple_protocol (p # ps) acc =
     simple_protocol ps
       (if proto_Protocol p = ''simple'' then (proto_UploadEndpoint p, proto_Token p) else acc)"

text \<open>The part of handleNew after the file is known not to exist (lines 206 to 293).\<close>

definition create_file ::
  "new_env \<Rightarrow> string \<Rightarrow> gw_call list \<Rightarrow> app_response \<times> gw_call list" where
  "create_file env filePath calls =
     (let calls1 = calls @ [GwInitiateFileUpload filePath] in
      case ne_InitiateFileUpload env of
        None \<Rightarrow> (RespError appErrorServerError ''error calling InitiateFileUpload'', calls1)
      | Some createRes \<Rightarrow>
          if ir_Code createRes \<noteq> CODE_OK
          then (RespError appErrorServerError ''error calling InitiateFileUpload'', calls1)
          else (case simple_protocol (ir_Protocols createRes) ([], []) of
                  (ep, token) \<Rightarrow>
                    if \<not> ne_NewRequest env
                    then (RespError appErrorServerError ''failed to create the file'', calls1)
                    else (let calls2 = calls1 @ [GwHttpPut ep token] in
                          case ne_HttpPut env of
                            None \<Rightarrow>
                              (RespError appErrorServerError ''failed to create the file'', calls2)
                          | Some statusCode \<Rightarrow>
                              if statusCode \<noteq> 403 \<and> statusCode \<noteq> 200
                              then (RespError appErrorServerError ''failed to create the file'',
                                    calls2)
                              else (let calls3 = calls2 @ [GwStatPath filePath] in
                                    case ne_StatCreated env of
                                      None \<Rightarrow>
                                        (RespError appErrorServerError
                                           ''statting the created file failed'', calls3)
                                    | Some statRes \<Rightarrow>
                                        if sr_Code statRes \<noteq> CODE_OK
                                        then (RespError appErrorServerError
                                                ''statting the created file failed'', calls3)
                                        else if sr_Type statRes \<noteq> RESOURCE_TYPE_FILE
                                        then (RespError appErrorInvalidParameter
                                                ''the given file id does not point to a file'',
                                              calls3)
                                        else if \<not> ne_Marshal env
                                        then (RespError appErrorServerError
                                                ''error marshalling JSON response'', calls3)
                                        else if \<not> ne_Write env
                                        then (RespError appErrorServerError
                                                ''error writing JSON response'', calls3)
                                        else (RespFileID (sr_Id statRes), calls3)))))"

text \<open>handleNew: the response and the calls issued (lines 124 to 294).\<close>

definition handleNew :: "new_env \<Rightarrow> new_request \<Rightarrow> app_response \<times> gw_call list" where
  "handleNew env r =
     (if \<not> ne_GetGatewayServiceClient env
      then (RespError appErrorServerError ''error getting grpc gateway client'', [])
      else if q_template r \<noteq> []
      then (RespError appErrorUnimplemented ''template is not implemented'', [])
      else if q_parent_container_id r = []
      then (RespError appErrorInvalidParameter ''missing parent container ID'', [])
      else (case ne_OwnCloudResourceIDUnwrap env (q_parent_container_id r) of
              None \<Rightarrow> (RespError appErrorInvalidParameter ''invalid parent container ID'', [])
            | Some parentContainerRef \<Rightarrow>
                if q_filename r = []
                then (RespError appErrorInvalidParameter ''missing filename'', [])
                else (case path_Split (q_filename r) of
                        (dirPart, filePart) \<Rightarrow>
                          if dirPart \<noteq> [] \<or> filePart \<noteq> q_filename r
                          then (RespError appErrorInvalidParameter
                                  ''the filename must not contain a path segment'', [])
                          else (let calls1 = [GwStatId parentContainerRef] in
                                case ne_StatParent env of
                                  None \<Rightarrow>
                                    (RespError appErrorServerError
                                       ''error sending a grpc stat request'', calls1)
                                | Some parentContainer \<Rightarrow>
                                    if sr_Code parentContainer \<noteq> CODE_OK
                                    then (RespError appErrorNotFound
                                            ''the parent container is not accessible or does not exist'',
                                          calls1)
                                    else if sr_Type parentContainer \<noteq> RESOURCE_TYPE_CONTAINER
                                    then (RespError appErrorInvalidParameter
                                            ''the parent container id does not point to a container'',
                                          calls1)
                                    else (let filePath = ne_file_path env (sr_Path parentContainer)
                                                           (q_filename r);
                                              calls2 = calls1 @ [GwStatPath filePath]
                                          in case ne_StatFile env of
                                               None \<Rightarrow>
                                                 (RespError appErrorServerError
                                                    ''failed to stat the file'', calls2)
                                             | Some statFileRes \<Rightarrow>
                                                 if sr_Code statFileRes \<noteq> CODE_NOT_FOUND
                                                 then (if sr_Code statFileRes = CODE_OK
                                                       then (RespError appErrorAlreadyExists
                                                               ''the file already exists'', calls2)
                                                       else (RespError appErrorServerError
                                                               ''statting the file returned unexpected status code'',
                                                             calls2))
                                                 else create_file env filePath calls2)))))"

section \<open>The JSON share manager (get, GetShare)\<close>

text \<open>
  A share as the manager stores it, with its opaque id, and a share key. The types of user
  ids, resource ids and grantees are parameters. Every stored share has an id: \<open>Share\<close>
  creates it with one.
\<close>

record ('u, 'r, 'g) share =
  sh_Id :: string
  sh_ResourceId :: 'r
  sh_Owner :: 'u
  sh_Creator :: 'u
  sh_Grantee :: 'g

record ('u, 'r, 'g) share_key =
  key_Owner :: 'u
  key_ResourceId :: 'r
  key_Grantee :: 'g

text \<open>A share reference: by id, by key, or with neither set.\<close>

datatype ('u, 'r, 'g) share_reference =
    RefId string
  | RefKey "('u, 'r, 'g) share_key"
  | RefNone

text \<open>
  The functions of the packages utils and share, and the \<open>String\<close> methods of the messages,
  that the manager calls. They are parameters;
  \<open>'c\<close> is the type of the requesting user in the context.
\<close>

record ('u, 'r, 'g, 'c) share_lib =
  UserEqual :: "'u \<Rightarrow> 'u \<Rightarrow> bool"
  ResourceIDEqual :: "'r \<Rightarrow> 'r \<Rightarrow> bool"
  GranteeEqual :: "'g \<Rightarrow> 'g \<Rightarrow> bool"
  IsCreatedByUser :: "('u, 'r, 'g) share \<Rightarrow> 'c \<Rightarrow> bool"
  IsGrantedToUser :: "('u, 'r, 'g) share \<Rightarrow> 'c \<Rightarrow> bool"
  ref_String :: "('u, 'r, 'g) share_reference \<Rightarrow> string"
  id_String :: "string \<Rightarrow> string"
  key_String :: "('u, 'r, 'g) share_key \<Rightarrow> string"

fun getByID ::
  "('u, 'r, 'g, 'c) share_lib \<Rightarrow> ('u, 'r, 'g) share list \<Rightarrow> string
     \<Rightarrow> error + ('u, 'r, 'g) share" where
  "getByID l [] ident = Inl (NotFound (id_String l ident))"
| "getByID l (s # ss) ident = (if sh_Id s = ident then Inr s else getByID l ss ident)"

fun getByKey ::
  "('u, 'r, 'g, 'c) share_lib \<Rightarrow> ('u, 'r, 'g) share list \<Rightarrow> ('u, 'r, 'g) share_key
     \<Rightarrow> error + ('u, 'r, 'g) share" where
  "getByKey l [] k = Inl (NotFound (key_String l k))"
| "getByKey l (s # ss) k =
     (if (UserEqual l (key_Owner k) (sh_Owner s) \<or> UserEqual l (key_Owner k) (sh_Creator s))
         \<and> ResourceIDEqual l (key_ResourceId k) (sh_ResourceId s)
         \<and> GranteeEqual l (key_Grantee k) (sh_Grantee s)
      then Inr s else getByKey l ss k)"

text \<open>The lookup at the head of \<open>get\<close> (lines 262 to 273).\<close>

definition lookup_share ::
  "('u, 'r, 'g, 'c) share_lib \<Rightarrow> ('u, 'r, 'g) share list \<Rightarrow> ('u, 'r, 'g) share_reference
     \<Rightarrow> error + ('u, 'r, 'g) share" where
  "lookup_share l shares ref =
     (case ref of
        RefId ident \<Rightarrow> getByID l shares ident
      | RefKey k \<Rightarrow> getByKey l shares k
      | RefNone \<Rightarrow> Inl (NotFound (ref_String l ref)))"

definition get_share ::
  "('u, 'r, 'g, 'c) share_lib \<Rightarrow> ('u, 'r, 'g) share list \<Rightarrow> 'c
     \<Rightarrow> ('u, 'r, 'g) share_reference \<Rightarrow> error + ('u, 'r, 'g) share" where
  "get_share l shares user ref =
     (case lookup_share l shares ref of
        Inl e \<Rightarrow> Inl e
      | Inr s \<Rightarrow>
          if IsCreatedByUser l s user then Inr s
          else if IsGrantedToUser l s user then Inr s
          else Inl (NotFound (ref_String l ref)))"

definition GetShare ::
  "('u, 'r, 'g, 'c) share_lib \<Rightarrow> ('u, 'r, 'g) share list \<Rightarrow> 'c
     \<Rightarrow> ('u, 'r, 'g) share_reference \<Rightarrow> error + ('u, 'r, 'g) share" where
  "GetShare l shares user ref =
     (case get_share l shares user ref of
        Inl e \<Rightarrow> Inl e
      | Inr s \<Rightarrow> Inr s)"

section \<open>Concrete inputs\<close>

text \<open>
  Inputs at which the functions above are evaluated below. The parameters get stand-ins: the
  decimal number of nanoseconds for the RFC 3339 rendering of a time, the node id and the mtime
  joined by a colon for the etag.
\<close>

definition ex_lib :: lib where
  "ex_lib =
     \<lparr>InternalPath = (\<lambda>spaceID nodeID. ''/spaces/'' @ spaceID @ ''/nodes/'' @ nodeID),
      LockfilePath = (\<lambda>p. p @ ''.lock''),
      RevisionIDDelimiter = ''.REV.'',
      CalculateEtag = (\<lambda>nodeID t. Inr (nodeID @ '':'' @ show_int t)),
      Format_RFC3339Nano = show_int,
      Parse_RFC3339Nano =
        (\<lambda>x. if x = ''3'' then Some 3 else if x = ''7'' then Some 7 else None),
      ChecksumPrefix = ''user.ocis.cs.'',
      TypeAttr = ''user.ocis.type'',
      BlobIDAttr = ''user.ocis.blobid'',
      BlobsizeAttr = ''user.ocis.blobsize'',
      MTimeAttr = ''user.ocis.mtime'',
      IDAttr = ''user.ocis.id'',
      ParentidAttr = ''user.ocis.parentid'',
      NameAttr = ''user.ocis.name'',
      StatusPrefix = ''user.ocis.nodestatus'',
      ProcessingStatus = ''processing:''\<rparr>"

text \<open>
  An environment in which every step succeeds; the existing node has blob size 5 and mtime 5.
\<close>

definition ex_env :: env where
  "ex_env =
     \<lparr>e_ReadSpaceRoot = None,
      e_CheckLock = None,
      e_ReadNode = Some \<lparr>old_ID = ''n1'', old_Blobsize = 5, old_GetMTime = Inr 5\<rparr>,
      e_CheckQuota = (\<lambda>overwrite oldSize newSize. None),
      e_os_error = (\<lambda>op path. None),
      e_now = 9\<rparr>"

text \<open>
  A fresh session (its metadata map is empty) that uploads 8 bytes to the existing node \<open>n1\<close>.
\<close>

definition ex_session :: session where
  "ex_session =
     \<lparr>s_ID = ''u1'', s_SpaceID = ''sp'', s_NodeID = ''n1'', s_NodeParentID = ''p1'',
      s_Filename = ''a.txt'', s_Size = 8, s_NodeExists = True, s_MTime = None,
      s_HeaderIfMatch = [], s_HeaderIfNoneMatch = [], s_HeaderIfUnmodifiedSince = [],
      s_MetaData = Map.empty\<rparr>"

definition ex_world :: world where
  "ex_world =
     \<lparr>files = [''/spaces/sp/nodes/n1'' \<mapsto>
        \<lparr>f_mtime = 5,
         f_attrs = [''user.ocis.blobid'' \<mapsto> ''b0'', ''user.ocis.blobsize'' \<mapsto> ''5'',
                    ''user.ocis.mtime'' \<mapsto> ''5'', ''user.ocis.name'' \<mapsto> ''a.txt'']\<rparr>],
      lock_log = [],
      persisted = Map.empty\<rparr>"

text \<open>The same environment, except that the quota check fails.\<close>

definition ex_env_quota :: env where
  "ex_env_quota =
     ex_env\<lparr>e_CheckQuota :=
       (\<lambda>overwrite oldSize newSize. Some (InsufficientStorage ''quota exceeded''))\<rparr>"

text \<open>The same environment, except that \<open>node.ReadNode\<close> fails and returns no node.\<close>

definition ex_env_unreadable :: env where
  "ex_env_unreadable = ex_env\<lparr>e_ReadNode := None\<rparr>"

text \<open>A fresh session that uploads 8 bytes to a new node \<open>n2\<close>.\<close>

definition ex_session_new :: session where
  "ex_session_new = ex_session\<lparr>s_NodeID := ''n2'', s_Filename := ''b.txt'', s_NodeExists := False\<rparr>"

text \<open>The session with an if-match header that is not the etag of the node.\<close>

definition ex_session_ifmatch :: session where
  "ex_session_ifmatch = ex_session\<lparr>s_HeaderIfMatch := ''deadbeef''\<rparr>"

text \<open>
  The session as a second call finds it, with the \<open>versionsPath\<close> of an earlier version in
  its metadata.
\<close>

definition ex_session_stale :: session where
  "ex_session_stale =
     ex_session\<lparr>s_MetaData := [''versionsPath'' \<mapsto> ''/spaces/sp/nodes/n1.REV.2'']\<rparr>"

text \<open>
  A storage for the consumer that holds the revisions of one file: restoring a revision
  files the replaced content as a new revision with mtime 9, deleting a revision removes it,
  and every other call succeeds without changing the revisions.
\<close>

definition ex_ops :: "revision list pp_ops" where
  "ex_ops =
     \<lparr>op_Finalize = (\<lambda>up fs. (None, fs)),
      op_ReadNode = (\<lambda>spaceID nodeID fs.
        Inr \<lparr>pn_SpaceID = spaceID, pn_ID = nodeID, pn_ParentID = ''p1''\<rparr>),
      op_Propagate = (\<lambda>p now fs. fs),
      op_cleanup_node = (\<lambda>up n failed fs. fs),
      op_Publish = (\<lambda>r. None),
      op_MakeRelativePath_Join = (\<lambda>dir filename. ''./'' @ dir @ ''/'' @ filename),
      op_NodeFromResource = (\<lambda>rid fs.
        Inr \<lparr>pn_SpaceID = rid_SpaceId rid, pn_ID = rid_OpaqueId rid, pn_ParentID = ''p1''\<rparr>),
      op_ListRevisions = (\<lambda>rid fs. (fs, None)),
      op_Delete = (\<lambda>rid fs. (None, fs)),
      op_PurgeRecycleItem = (\<lambda>rid key path fs. (None, fs)),
      op_RestoreRevision = (\<lambda>rid key fs.
        (None, fs @ [\<lparr>rev_Key = ''n1.REV.9'', rev_Mtime = 9\<rparr>])),
      op_DeleteRevision = (\<lambda>rid key fs. (None, filter (\<lambda>v. rev_Key v \<noteq> key) fs)),
      op_SetScanData = (\<lambda>n description scandate fs. (None, fs))\<rparr>"

definition ex_upload :: upload where
  "ex_upload =
     \<lparr>up_ID = ''u1'',
      up_Storage = [''SpaceRoot'' \<mapsto> ''sp'', ''NodeId'' \<mapsto> ''n1''],
      up_MetaData = [''providerID'' \<mapsto> ''prov'', ''dir'' \<mapsto> ''docs'',
                     ''filename'' \<mapsto> ''a.txt'']\<rparr>"

text \<open>The upload \<open>u1\<close> is stored, and the file has two earlier revisions, of mtime 3 and 5.\<close>

definition ex_pp_state :: "revision list pp_state" where
  "ex_pp_state =
     \<lparr>pp_fs = [\<lparr>rev_Key = ''n1.REV.3'', rev_Mtime = 3\<rparr>,
               \<lparr>rev_Key = ''n1.REV.5'', rev_Mtime = 5\<rparr>],
      pp_uploads = [''u1'' \<mapsto> ex_upload],
      pp_published = [],
      pp_cache_removed = [],
      pp_calls = []\<rparr>"

definition ex_pf :: "string \<Rightarrow> PostprocessingFinished" where
  "ex_pf outcome = \<lparr>pf_UploadID = ''u1'', pf_Outcome = outcome, pf_ExecutingUser = ''alice''\<rparr>"

text \<open>An on-demand scan (no upload id) of the file that asks for deletion.\<close>

definition ex_vf :: "string \<Rightarrow> VirusscanFinished" where
  "ex_vf errorMsg =
     \<lparr>vf_UploadID = [],
      vf_ResourceID = \<lparr>rid_StorageId = ''prov'', rid_SpaceId = ''sp'', rid_OpaqueId = ''n1''\<rparr>,
      vf_Outcome = ''delete'', vf_ErrorMsg = errorMsg, vf_Description = ''EICAR'',
      vf_Scandate = 12, vf_ExecutingUser = ''alice''\<rparr>"

text \<open>A gateway that answers every call of handleNew, and requests for the new endpoint.\<close>

definition ex_new_env :: new_env where
  "ex_new_env =
     \<lparr>ne_GetGatewayServiceClient = True,
      ne_OwnCloudResourceIDUnwrap = (\<lambda>x. if x = [] then None
         else Some \<lparr>rid_StorageId = ''prov'', rid_SpaceId = ''sp'', rid_OpaqueId = x\<rparr>),
      ne_file_path = (\<lambda>dir filename. dir @ ''/'' @ filename),
      ne_StatParent = Some \<lparr>sr_Code = CODE_OK, sr_Type = RESOURCE_TYPE_CONTAINER,
         sr_Path = ''/home/docs'',
         sr_Id = \<lparr>rid_StorageId = ''prov'', rid_SpaceId = ''sp'', rid_OpaqueId = ''p1''\<rparr>\<rparr>,
      ne_StatFile = Some \<lparr>sr_Code = CODE_NOT_FOUND, sr_Type = RESOURCE_TYPE_OTHER,
         sr_Path = [],
         sr_Id = \<lparr>rid_StorageId = [], rid_SpaceId = [], rid_OpaqueId = []\<rparr>\<rparr>,
      ne_InitiateFileUpload = Some \<lparr>ir_Code = CODE_OK, ir_Protocols =
         [\<lparr>proto_Protocol = ''simple'', proto_UploadEndpoint = ''http://data/upload'',
           proto_Token = ''tok''\<rparr>]\<rparr>,
      ne_NewRequest = True,
      ne_HttpPut = Some 200,
      ne_StatCreated = Some \<lparr>sr_Code = CODE_OK, sr_Type = RESOURCE_TYPE_FILE,
         sr_Path = ''/home/docs/a.txt'',
         sr_Id = \<lparr>rid_StorageId = ''prov'', rid_SpaceId = ''sp'', rid_OpaqueId = ''n7''\<rparr>\<rparr>,
      ne_Marshal = True,
      ne_Write = True\<rparr>"

definition ex_new_request :: "string \<Rightarrow> string \<Rightarrow> new_request" where
  "ex_new_request template filename =
     \<lparr>q_template = template, q_parent_container_id = ''p1'', q_filename = filename\<rparr>"

text \<open>
  A share manager with user ids, resource ids and grantees that are strings, compared by
  equality, a requesting user that is a user id, and two shares of the user \<open>alice\<close>. The
  \<open>String\<close> methods are those that the protocol buffer compiler generates: the text format
  of the message, in which a share id is its field \<open>opaque_id\<close> and a reference holds the id
  or the key as a nested message (the quotes around a value are left out here).
\<close>

definition ex_share_lib :: "(string, string, string, string) share_lib" where
  "ex_share_lib =
     \<lparr>UserEqual = (\<lambda>a b. a = b),
      ResourceIDEqual = (\<lambda>a b. a = b),
      GranteeEqual = (\<lambda>a b. a = b),
      IsCreatedByUser = (\<lambda>s user. user = sh_Owner s \<or> user = sh_Creator s),
      IsGrantedToUser = (\<lambda>s user. user = sh_Grantee s),
      ref_String = (\<lambda>ref. case ref of
                        RefId i \<Rightarrow> ''id:{opaque_id:'' @ i @ ''}''
                      | RefKey k \<Rightarrow> ''key:{owner:'' @ key_Owner k @ '' resource_id:''
                                     @ key_ResourceId k @ '' grantee:'' @ key_Grantee k @ ''}''
                      | RefNone \<Rightarrow> []),
      id_String = (\<lambda>i. ''opaque_id:'' @ i),
      key_String = (\<lambda>k. ''owner:'' @ key_Owner k @ '' resource_id:'' @ key_ResourceId k
                          @ '' grantee:'' @ key_Grantee k)\<rparr>"

definition ex_shares :: "(string, string, string) share list" where
  "ex_shares =
     [\<lparr>sh_Id = ''s1'', sh_ResourceId = ''r1'', sh_Owner = ''alice'', sh_Creator = ''alice'',
       sh_Grantee = ''bob''\<rparr>,
      \<lparr>sh_Id = ''s2'', sh_ResourceId = ''r2'', sh_Owner = ''alice'', sh_Creator = ''alice'',
       sh_Grantee = ''carol''\<rparr>]"

section \<open>Properties of GetQuota\<close>

lemma quota_switch_numeric:
  assumes "quota_switch c q fsz free = Inr (tot, used, remaining)"
    and "q \<noteq> QuotaUncalculated c" "q \<noteq> QuotaUnknown c" "q \<noteq> QuotaUnlimited c"
    and "tot \<le> free"
  shows "ParseUint q = Inr tot \<and> used = fsz
         \<and> remaining = (if used < tot then tot - used else 0)"
  using assms
  by (auto simp: quota_switch_def split: sum.splits if_splits)

text \<open>
  Claim C8. Whenever GetQuota returns for a space whose quota attribute is a plain value that
  is none of the three sentinels (so that it was parsed as a number) and the parsed total is at
  most the free space, the returned remaining is total minus used when used is below total and
  0 otherwise; it is never the wrapped-around difference, and it never exceeds total.
\<close>

theorem GetQuota_remaining_no_underflow:
  assumes ret: "GetQuota c pj env = Inr (tot, used, remaining)"
    and ri: "qe_AsResourceInfo env = Inr ri"
    and av: "qe_GetAvailableSize env = Inr free"
    and q: "ri_quota ri = Some (''plain'', q)"
    and numeric: "q \<noteq> QuotaUncalculated c" "q \<noteq> QuotaUnknown c" "q \<noteq> QuotaUnlimited c"
    and le: "tot \<le> free"
  shows "ParseUint q = Inr tot \<and> used = ri_Size ri
         \<and> remaining = (if used < tot then tot - used else 0)
         \<and> remaining \<le> tot
         \<and> unat remaining = unat tot - unat used"
proof -
  have sw: "quota_switch c q (ri_Size ri) free = Inr (tot, used, remaining)"
    using ret ri av q
    by (auto simp: GetQuota_def quotaStr_of_def split: if_splits sum.splits)
  have core: "ParseUint q = Inr tot \<and> used = ri_Size ri
         \<and> remaining = (if used < tot then tot - used else 0)"
    using quota_switch_numeric [OF sw numeric le] .
  have bound: "remaining \<le> tot"
  proof (cases "used < tot")
    case True
    then have "tot - used \<le> tot" by (simp add: word_sub_le less_imp_le)
    with core True show ?thesis by simp
  next
    case False
    with core show ?thesis by simp
  qed
  have nat: "unat remaining = unat tot - unat used"
  proof (cases "used < tot")
    case True
    then have "unat (tot - used) = unat tot - unat used"
      by (simp add: unat_sub less_imp_le)
    with core True show ?thesis by simp
  next
    case False
    then have "unat tot \<le> unat used" by (simp add: word_le_nat_alt not_less)
    with core False show ?thesis by simp
  qed
  from core bound nat show ?thesis by simp
qed

text \<open>
  A space with quota 100 of which 30 are used, on a file system with 1000 free: 70 remain.
\<close>

theorem GetQuota_remaining_witness:
  "GetQuota \<lparr>QuotaUncalculated = ''-1'', QuotaUnknown = ''-2'', QuotaUnlimited = ''0''\<rparr>
      (\<lambda>a b. a @ ''/'' @ b)
      \<lparr>qe_ref_given = True,
       qe_NodeFromResource =
         Inr \<lparr>qn_Exists = True, qn_ID = ''n1'', qn_ParentID = ''p1'', qn_Name = ''space''\<rparr>,
       qe_AssemblePermissions = Inr True, qe_canListAllSpaces = False,
       qe_AsResourceInfo = Inr \<lparr>ri_Size = 30, ri_quota = Some (''plain'', ''100'')\<rparr>,
       qe_GetAvailableSize = Inr 1000\<rparr>
     = Inr (100, 30, 70)
   \<and> ParseUint ''100'' = Inr 100
   \<and> (70 :: 64 word) = (if (30 :: 64 word) < 100 then 100 - 30 else 0)
   \<and> (70 :: 64 word) \<le> 100
   \<and> unat (70 :: 64 word) = unat (100 :: 64 word) - unat (30 :: 64 word)"
proof -
  let ?c = "\<lparr>QuotaUncalculated = ''-1'', QuotaUnknown = ''-2'', QuotaUnlimited = ''0''\<rparr>"
  let ?ri = "\<lparr>ri_Size = 30, ri_quota = Some (''plain'', ''100'')\<rparr>"
  let ?env = "\<lparr>qe_ref_given = True,
       qe_NodeFromResource =
         Inr \<lparr>qn_Exists = True, qn_ID = ''n1'', qn_ParentID = ''p1'', qn_Name = ''space''\<rparr>,
       qe_AssemblePermissions = Inr True, qe_canListAllSpaces = False,
       qe_AsResourceInfo = Inr ?ri,
       qe_GetAvailableSize = Inr (1000 :: 64 word)\<rparr>"
  have sw: "quota_switch ?c ''100'' 30 1000 = Inr (100, 30, 70)"
    by (simp add: quota_switch_def ParseUint_def digit_val_def)
  have ret: "GetQuota ?c (\<lambda>a b. a @ ''/'' @ b) ?env = Inr (100, 30, 70)"
    by (simp add: GetQuota_def quotaStr_of_def sw)
  have ri: "qe_AsResourceInfo ?env = Inr ?ri" by simp
  have av: "qe_GetAvailableSize ?env = Inr 1000" by simp
  have q: "ri_quota ?ri = Some (''plain'', ''100'')" by simp
  have n1: "''100'' \<noteq> QuotaUncalculated ?c" by simp
  have n2: "''100'' \<noteq> QuotaUnknown ?c" by simp
  have n3: "''100'' \<noteq> QuotaUnlimited ?c" by simp
  have le: "(100 :: 64 word) \<le> 1000" by simp
  from GetQuota_remaining_no_underflow [OF ret ri av q n1 n2 n3 le] ret
  show ?thesis by simp
qed

section \<open>Properties of the upload session store\<close>

subsection \<open>The metadata lock\<close>

text \<open>No operation on the file system touches the log of locks.\<close>

lemma os_Create_lock_log: "os_Create env p w = Inr w' \<Longrightarrow> lock_log w' = lock_log w"
  by (auto simp: os_Create_def split: if_splits option.splits)

lemma os_OpenFile_excl_lock_log: "os_OpenFile_excl env p w = Inr w' \<Longrightarrow> lock_log w' = lock_log w"
  by (auto simp: os_OpenFile_excl_def split: if_splits option.splits)

lemma os_Chtimes_lock_log: "os_Chtimes env p t w = Inr w' \<Longrightarrow> lock_log w' = lock_log w"
  by (auto simp: os_Chtimes_def split: option.splits)

lemma CopyMetadata_lock_log:
  "CopyMetadataWithSourceLock env a b f w = Inr w' \<Longrightarrow> lock_log w' = lock_log w"
  by (auto simp: CopyMetadataWithSourceLock_def split: option.splits)

lemma SetXattrs_lock_log: "SetXattrs env p a w = Inr w' \<Longrightarrow> lock_log w' = lock_log w"
  by (auto simp: SetXattrs_def split: option.splits)

lemma Persist_lock_log: "Persist env s w = Inr w' \<Longrightarrow> lock_log w' = lock_log w"
  by (auto simp: Persist_def split: option.splits)

lemma create_version_lock_log:
  "create_version l st env s n sp fsize old mt w = (err, s1, w1) \<Longrightarrow> lock_log w1 = lock_log w"
  by (auto simp: create_version_def record_version_def Let_def split: if_splits sum.splits
           dest!: os_Create_lock_log CopyMetadata_lock_log os_Chtimes_lock_log)

lemma write_node_lock_log:
  "write_node l env s n ia err w = (res, w1) \<Longrightarrow> lock_log w1 = lock_log w"
  by (auto simp: write_node_def split: option.splits sum.splits
           dest!: SetXattrs_lock_log Persist_lock_log)

lemma initNewNode_lock_log:
  "initNewNode l env s n fsize w = (u, err, s1, w1) \<Longrightarrow>
     (u = None \<and> lock_log w1 = lock_log w)
     \<or> (\<exists>p. u = Some p \<and> lock_log w1 = lock_log w @ [Locked p])"
  by (auto simp: initNewNode_def Let_def split: option.splits sum.splits
           dest!: os_OpenFile_excl_lock_log)

lemma updateExistingNode_lock_log:
  "updateExistingNode l st env s n sp fsize w = Returns (u, err, s1, w1) \<Longrightarrow>
     (u = None \<and> lock_log w1 = lock_log w)
     \<or> (\<exists>p. u = Some p \<and> lock_log w1 = lock_log w @ [Locked p])"
  by (auto simp: updateExistingNode_def Let_def split: option.splits sum.splits prod.splits
           dest!: create_version_lock_log)

lemma held_locks_balanced: "held_locks (evs @ [Locked p, Unlocked p]) = held_locks evs"
  by (simp add: held_locks_def)

lemma held_locks_Locked: "held_locks (evs @ [Locked p]) = p # held_locks evs"
  by (simp add: held_locks_def)

text \<open>
  When CreateNodeForUpload returns, with the node or with an error, every lock it took is
  released: either no lock was taken and the log of locks is as before, or exactly one lock
  was taken and the deferred function releases that same lock as the last event.
\<close>

lemma CreateNodeForUpload_returns_lock_released:
  assumes r: "CreateNodeForUpload l st env s ia w = Returns (res, s', w')"
  shows "(lock_log w' = lock_log w \<or> (\<exists>p. lock_log w' = lock_log w @ [Locked p, Unlocked p]))
       \<and> held_locks (lock_log w') = held_locks (lock_log w)"
proof -
  have shape: "lock_log w' = lock_log w \<or> (\<exists>p. lock_log w' = lock_log w @ [Locked p, Unlocked p])"
  proof (cases "e_ReadSpaceRoot env = None \<and> e_CheckLock env = None")
    case False
    with r show ?thesis
      by (auto simp: CreateNodeForUpload_def Let_def split: option.splits)
  next
    case True
    let ?n = "node_New (s_SpaceID s) (s_NodeID s) (s_NodeParentID s) (s_Filename s) (s_Size s) (s_ID s)"
    let ?c = "if s_NodeExists s
              then updateExistingNode l st env s ?n (s_SpaceID s) (s_Size s) w
              else Returns (initNewNode l env s ?n (s_Size s) w)"
    from r True obtain u err s1 w1 where step: "?c = Returns (u, err, s1, w1)"
      by (cases ?c) (auto simp: CreateNodeForUpload_def Let_def)
    obtain res2 w2 where wn: "write_node l env s1 ?n ia err w1 = (res2, w2)"
      by (cases "write_node l env s1 ?n ia err w1") auto
    have w': "w' = run_deferred_unlock u w2"
      using r True step wn by (simp add: CreateNodeForUpload_def Let_def)
    have l2: "lock_log w2 = lock_log w1" using write_node_lock_log [OF wn] .
    have l1: "(u = None \<and> lock_log w1 = lock_log w)
              \<or> (\<exists>p. u = Some p \<and> lock_log w1 = lock_log w @ [Locked p])"
      using step initNewNode_lock_log updateExistingNode_lock_log
      by (cases "s_NodeExists s") auto
    from l1 l2 w' show ?thesis
      by (auto simp: run_deferred_unlock_def)
  qed
  from shape have "held_locks (lock_log w') = held_locks (lock_log w)"
    by (auto simp: held_locks_balanced)
  with shape show ?thesis by simp
qed

text \<open>
  CreateNodeForUpload does not return exactly when the target exists, the lock file is opened
  and \<open>node.ReadNode\<close> gives no node: it panics then, and the lock taken stays outstanding.
\<close>

lemma updateExistingNode_Panics:
  "updateExistingNode l st env s n sp fsize w = Panics wp \<longleftrightarrow>
     e_os_error env OpLock (LockfilePath l (InternalPath l (n_SpaceID n) (n_ID n))) = None
     \<and> e_ReadNode env = None
     \<and> wp = w\<lparr>lock_log := lock_log w
                  @ [Locked (LockfilePath l (InternalPath l (n_SpaceID n) (n_ID n)))]\<rparr>"
  by (auto simp: updateExistingNode_def Let_def split: option.splits)

lemma CreateNodeForUpload_Panics:
  "CreateNodeForUpload l st env s ia w = Panics wp \<longleftrightarrow>
     e_ReadSpaceRoot env = None \<and> e_CheckLock env = None \<and> s_NodeExists s
     \<and> e_os_error env OpLock (LockfilePath l (InternalPath l (s_SpaceID s) (s_NodeID s))) = None
     \<and> e_ReadNode env = None
     \<and> wp = w\<lparr>lock_log := lock_log w
                  @ [Locked (LockfilePath l (InternalPath l (s_SpaceID s) (s_NodeID s)))]\<rparr>"
proof -
  let ?n = "node_New (s_SpaceID s) (s_NodeID s) (s_NodeParentID s) (s_Filename s) (s_Size s) (s_ID s)"
  have n: "n_SpaceID ?n = s_SpaceID s" "n_ID ?n = s_NodeID s"
    by (simp_all add: node_New_def)
  show ?thesis
  proof (cases "e_ReadSpaceRoot env = None \<and> e_CheckLock env = None \<and> s_NodeExists s")
    case False
    then show ?thesis
      by (auto simp: CreateNodeForUpload_def Let_def
               split: option.splits completion.splits prod.splits)
  next
    case True
    then have "CreateNodeForUpload l st env s ia w = Panics wp \<longleftrightarrow>
                 updateExistingNode l st env s ?n (s_SpaceID s) (s_Size s) w = Panics wp"
      by (auto simp: CreateNodeForUpload_def Let_def split: completion.splits prod.splits)
    with True show ?thesis
      by (simp add: updateExistingNode_Panics n)
  qed
qed

lemma CreateNodeForUpload_Panics_held:
  assumes "CreateNodeForUpload l st env s ia w = Panics wp"
  shows "held_locks (lock_log wp)
           = LockfilePath l (InternalPath l (s_SpaceID s) (s_NodeID s)) # held_locks (lock_log w)"
  using assms by (simp add: CreateNodeForUpload_Panics held_locks_Locked)

text \<open>
  Claim C7, evaluated. The target \<open>n1\<close> exists and versioning is enabled; the space root is
  read, the node is not locked and the lock file \<open>/spaces/sp/nodes/n1.lock\<close> is opened; then
  \<open>node.ReadNode\<close> fails for the target and returns no node. CreateNodeForUpload does not
  return: it panics at \<open>old.Blobsize\<close>, before the function that unlocks is deferred, and
  the lock taken is not released. No lock was outstanding on entry; the lock of the target is
  outstanding afterwards.
\<close>

theorem CreateNodeForUpload_panic_keeps_lock:
  "e_ReadNode ex_env_unreadable = None
   \<and> held_locks (lock_log ex_world) = []
   \<and> CreateNodeForUpload ex_lib \<lparr>disableVersioning = False\<rparr> ex_env_unreadable ex_session
        Map.empty ex_world
       = Panics (ex_world\<lparr>lock_log := [Locked ''/spaces/sp/nodes/n1.lock'']\<rparr>)
   \<and> held_locks (lock_log (ex_world\<lparr>lock_log := [Locked ''/spaces/sp/nodes/n1.lock'']\<rparr>))
       = [''/spaces/sp/nodes/n1.lock'']"
  by (simp add: ex_lib_def ex_env_def ex_env_unreadable_def ex_session_def ex_world_def
        CreateNodeForUpload_def updateExistingNode_def held_locks_def Let_def node_New_def)

text \<open>
  With the same request, when the call fails at the quota check instead (after the lock file
  was opened), it returns, and the lock is taken and released.
\<close>

lemma CreateNodeForUpload_quota_error_releases_lock:
  "CreateNodeForUpload ex_lib \<lparr>disableVersioning = False\<rparr> ex_env_quota ex_session
        Map.empty ex_world
     = Returns (Inl (InsufficientStorage ''quota exceeded''), ex_session,
         ex_world\<lparr>lock_log := [Locked ''/spaces/sp/nodes/n1.lock'',
                                 Unlocked ''/spaces/sp/nodes/n1.lock'']\<rparr>)"
  by (simp add: ex_lib_def ex_env_def ex_session_def ex_world_def ex_env_quota_def
        CreateNodeForUpload_def updateExistingNode_def write_node_def run_deferred_unlock_def
        Let_def node_New_def)

subsection \<open>The size difference recorded in the session\<close>

lemma sint_sub_nonneg:
  fixes a b :: "64 word"
  assumes "0 \<le> sint a" "0 \<le> sint b"
  shows "sint (a - b) = sint a - sint b"
proof -
  have a: "sint a < 2 ^ 63" using sint_lt [of a] by simp
  have b: "sint b < 2 ^ 63" using sint_lt [of b] by simp
  have "sint (a - b) = signed_take_bit 63 (sint a - sint b)"
    by (simp add: sint_word_ariths)
  also have "\<dots> = sint a - sint b"
    using assms a b by (intro signed_take_bit_int_eq_self) auto
  finally show ?thesis .
qed

lemma initNewNode_sizeDiff:
  "initNewNode l env s n fsize w = (u, None, s1, w1) \<Longrightarrow>
     s_MetaData s1 ''sizeDiff'' = Some (FormatInt fsize) \<and> s_ID s1 = s_ID s"
  by (auto simp: initNewNode_def Let_def split: option.splits sum.splits)

lemma create_version_sizeDiff:
  "create_version l st env s n sp fsize old mt w = (None, s1, w1) \<Longrightarrow>
     s_MetaData s1 ''sizeDiff'' = Some (FormatInt (fsize - old_Blobsize old)) \<and> s_ID s1 = s_ID s"
  by (auto simp: create_version_def record_version_def Let_def split: if_splits sum.splits)

lemma updateExistingNode_sizeDiff:
  "updateExistingNode l st env s n sp fsize w = Returns (u, None, s1, w1) \<Longrightarrow>
     \<exists>old. e_ReadNode env = Some old
       \<and> s_MetaData s1 ''sizeDiff'' = Some (FormatInt (fsize - old_Blobsize old))
       \<and> s_ID s1 = s_ID s"
  by (auto simp: updateExistingNode_def Let_def split: option.splits sum.splits prod.splits
           dest!: create_version_sizeDiff)

lemma write_node_Inr:
  "write_node l env s n ia err w = (Inr n', w1) \<Longrightarrow> err = None \<and> persisted w1 (s_ID s) = Some s"
  by (auto simp: write_node_def SetXattrs_def Persist_def split: option.splits sum.splits)

text \<open>What a successful return says about the session.\<close>

lemma CreateNodeForUpload_returned_sizeDiff:
  assumes ok: "CreateNodeForUpload l st env s ia w = Returns (Inr n, s', w')"
  shows "persisted w' (s_ID s) = Some s'
       \<and> (if s_NodeExists s
          then \<exists>old. e_ReadNode env = Some old
                 \<and> s_MetaData s' ''sizeDiff'' = Some (FormatInt (s_Size s - old_Blobsize old))
          else s_MetaData s' ''sizeDiff'' = Some (FormatInt (s_Size s)))"
proof -
  let ?n = "node_New (s_SpaceID s) (s_NodeID s) (s_NodeParentID s) (s_Filename s) (s_Size s) (s_ID s)"
  let ?c = "if s_NodeExists s
            then updateExistingNode l st env s ?n (s_SpaceID s) (s_Size s) w
            else Returns (initNewNode l env s ?n (s_Size s) w)"
  from ok have pre: "e_ReadSpaceRoot env = None" "e_CheckLock env = None"
    by (auto simp: CreateNodeForUpload_def Let_def split: option.splits)
  from ok pre obtain u err s1 w1 where step: "?c = Returns (u, err, s1, w1)"
    by (cases ?c) (auto simp: CreateNodeForUpload_def Let_def)
  obtain res2 w2 where wn: "write_node l env s1 ?n ia err w1 = (res2, w2)"
    by (cases "write_node l env s1 ?n ia err w1") auto
  from ok pre step wn have res: "res2 = Inr n" "s' = s1" "w' = run_deferred_unlock u w2"
    by (simp_all add: CreateNodeForUpload_def Let_def)
  from wn res(1) write_node_Inr have err: "err = None" and pers: "persisted w2 (s_ID s1) = Some s1"
    by blast+
  have sd: "(if s_NodeExists s
          then \<exists>old. e_ReadNode env = Some old
                 \<and> s_MetaData s1 ''sizeDiff'' = Some (FormatInt (s_Size s - old_Blobsize old))
          else s_MetaData s1 ''sizeDiff'' = Some (FormatInt (s_Size s)))
        \<and> s_ID s1 = s_ID s"
  proof (cases "s_NodeExists s")
    case True
    with step err updateExistingNode_sizeDiff [of l st env s ?n "s_SpaceID s" "s_Size s" w u s1 w1]
    show ?thesis by auto
  next
    case False
    with step err initNewNode_sizeDiff [of l env s ?n "s_Size s" w u s1 w1]
    show ?thesis by auto
  qed
  have p': "persisted w' (s_ID s) = Some s'"
    using pers sd res by (auto simp: run_deferred_unlock_def split: option.splits)
  from sd p' res(2) show ?thesis by simp
qed

text \<open>
  A new target: when no step is refused (the node entry does not exist yet, the quota check
  passes), the call returns the node, and the session is the one given with \<open>sizeDiff\<close> set
  to the declared size.
\<close>

lemma CreateNodeForUpload_new_target:
  assumes new: "\<not> s_NodeExists s"
    and root: "e_ReadSpaceRoot env = None"
    and chk: "e_CheckLock env = None"
    and path: "InternalPath l (s_SpaceID s) (s_NodeID s) \<noteq> []"
    and fresh: "files w (InternalPath l (s_SpaceID s) (s_NodeID s)) = None"
    and os: "\<forall>op \<in> {OpMkdirAll, OpLock, OpOpenFile, OpSetXattrs}.
               e_os_error env op (InternalPath l (s_SpaceID s) (s_NodeID s)) = None"
    and pers: "e_os_error env OpPersist (s_ID s) = None"
    and quota: "e_CheckQuota env False 0 (s_Size s) = None"
  shows "\<exists>w'. CreateNodeForUpload l st env s ia w =
           Returns (Inr (node_New (s_SpaceID s) (s_NodeID s) (s_NodeParentID s) (s_Filename s)
                           (s_Size s) (s_ID s)),
                    s\<lparr>s_MetaData := (s_MetaData s)(''sizeDiff'' \<mapsto> FormatInt (s_Size s))\<rparr>, w')"
proof -
  let ?n = "node_New (s_SpaceID s) (s_NodeID s) (s_NodeParentID s) (s_Filename s) (s_Size s) (s_ID s)"
  let ?p = "InternalPath l (s_SpaceID s) (s_NodeID s)"
  let ?s1 = "s\<lparr>s_MetaData := (s_MetaData s)(''sizeDiff'' \<mapsto> FormatInt (s_Size s))\<rparr>"
  let ?w2 = "w\<lparr>lock_log := lock_log w @ [Locked ?p],
               files := (files w)(?p \<mapsto> \<lparr>f_mtime = e_now env, f_attrs = Map.empty\<rparr>)\<rparr>"
  have n: "n_SpaceID ?n = s_SpaceID s" "n_ID ?n = s_NodeID s"
    by (simp_all add: node_New_def)
  from os have o: "e_os_error env OpMkdirAll ?p = None" "e_os_error env OpLock ?p = None"
    "e_os_error env OpOpenFile ?p = None" "e_os_error env OpSetXattrs ?p = None"
    by simp_all
  have init: "initNewNode l env s ?n (s_Size s) w = (Some ?p, None, ?s1, ?w2)"
    using path fresh o quota by (simp add: initNewNode_def os_OpenFile_excl_def Let_def n)
  have "\<exists>w3. write_node l env ?s1 ?n ia None ?w2 = (Inr ?n, w3)"
    using o pers by (simp add: write_node_def SetXattrs_def Persist_def n)
  then obtain w3 where wn: "write_node l env ?s1 ?n ia None ?w2 = (Inr ?n, w3)" ..
  have "CreateNodeForUpload l st env s ia w = Returns (Inr ?n, ?s1, run_deferred_unlock (Some ?p) w3)"
    using new root chk init wn by (simp add: CreateNodeForUpload_def Let_def)
  then show ?thesis by blast
qed

text \<open>
  An existing target, with versioning disabled: when no step is refused (the node is read,
  the quota and the preconditions pass), the call returns the node, and the session is the one
  given with \<open>sizeDiff\<close> set to the declared size minus the size of the old blob.
\<close>

lemma CreateNodeForUpload_existing_target:
  assumes ex: "s_NodeExists s"
    and nov: "disableVersioning st"
    and root: "e_ReadSpaceRoot env = None"
    and chk: "e_CheckLock env = None"
    and lock: "e_os_error env OpLock
                 (LockfilePath l (InternalPath l (s_SpaceID s) (s_NodeID s))) = None"
    and rn: "e_ReadNode env = Some old"
    and quota: "e_CheckQuota env True (old_Blobsize old) (s_Size s) = None"
    and mt: "old_GetMTime old = Inr oldNodeMtime"
    and et: "CalculateEtag l (old_ID old) oldNodeMtime = Inr oldNodeEtag"
    and pre: "check_preconditions l s oldNodeEtag oldNodeMtime = None"
    and there: "files w (InternalPath l (s_SpaceID s) (s_NodeID s)) = Some f"
    and os: "\<forall>op \<in> {OpChtimes, OpSetXattrs}.
               e_os_error env op (InternalPath l (s_SpaceID s) (s_NodeID s)) = None"
    and pers: "e_os_error env OpPersist (s_ID s) = None"
  shows "\<exists>w'. CreateNodeForUpload l st env s ia w =
           Returns (Inr (node_New (s_SpaceID s) (s_NodeID s) (s_NodeParentID s) (s_Filename s)
                           (s_Size s) (s_ID s)),
                    s\<lparr>s_MetaData := (s_MetaData s)
                         (''sizeDiff'' \<mapsto> FormatInt (s_Size s - old_Blobsize old),
                          ''versionsPath'' \<mapsto> InternalPath l (s_SpaceID s) (s_NodeID s))\<rparr>, w')"
proof -
  let ?n = "node_New (s_SpaceID s) (s_NodeID s) (s_NodeParentID s) (s_Filename s) (s_Size s) (s_ID s)"
  let ?p = "InternalPath l (s_SpaceID s) (s_NodeID s)"
  let ?lf = "LockfilePath l ?p"
  let ?s1 = "s\<lparr>s_MetaData := (s_MetaData s)
                  (''sizeDiff'' \<mapsto> FormatInt (s_Size s - old_Blobsize old),
                   ''versionsPath'' \<mapsto> ?p)\<rparr>"
  let ?w1 = "w\<lparr>lock_log := lock_log w @ [Locked ?lf]\<rparr>"
  let ?w2 = "?w1\<lparr>files := (files ?w1)(?p \<mapsto> f\<lparr>f_mtime := oldNodeMtime\<rparr>)\<rparr>"
  have n: "n_SpaceID ?n = s_SpaceID s" "n_ID ?n = s_NodeID s"
    by (simp_all add: node_New_def)
  from os have o: "e_os_error env OpChtimes ?p = None" "e_os_error env OpSetXattrs ?p = None"
    by simp_all
  have cv: "create_version l st env s ?n (s_SpaceID s) (s_Size s) old oldNodeMtime ?w1
              = (None, ?s1, ?w2)"
    using nov there o
    by (simp add: create_version_def record_version_def os_Chtimes_def md_get_def Let_def n)
  have up: "updateExistingNode l st env s ?n (s_SpaceID s) (s_Size s) w
              = Returns (Some ?lf, None, ?s1, ?w2)"
    using lock rn quota mt et pre cv by (simp add: updateExistingNode_def Let_def n)
  have "\<exists>w3. write_node l env ?s1 ?n ia None ?w2 = (Inr ?n, w3)"
    using o pers by (simp add: write_node_def SetXattrs_def Persist_def n)
  then obtain w3 where wn: "write_node l env ?s1 ?n ia None ?w2 = (Inr ?n, w3)" ..
  have "CreateNodeForUpload l st env s ia w = Returns (Inr ?n, ?s1, run_deferred_unlock (Some ?lf) w3)"
    using ex root chk up wn by (simp add: CreateNodeForUpload_def Let_def)
  then show ?thesis by blast
qed

text \<open>
  Claim C6. After CreateNodeForUpload completes, the session metadata key \<open>sizeDiff\<close> is the
  declared new size minus the previous blob size when the target node already existed, and the
  declared new size when the target node is new, in the decimal rendering of
  \<open>strconv.FormatInt\<close>; the session is persisted with it. The subtraction is that of int64;
  for sizes that are not negative it is the exact difference. The call does complete, with
  that entry: for a new target when the node entry does not exist yet and no step is refused,
  and for an existing target (with versioning disabled) when the node is read, the quota and
  the preconditions pass and no step is refused.
\<close>

theorem CreateNodeForUpload_sizeDiff:
  "(CreateNodeForUpload l st env s ia w = Returns (Inr n, s', w') \<longrightarrow>
      persisted w' (s_ID s) = Some s'
      \<and> (if s_NodeExists s
         then \<exists>old. e_ReadNode env = Some old
                \<and> s_MetaData s' ''sizeDiff'' = Some (FormatInt (s_Size s - old_Blobsize old))
                \<and> (0 \<le> sint (s_Size s) \<and> 0 \<le> sint (old_Blobsize old) \<longrightarrow>
                     md_get (s_MetaData s') ''sizeDiff''
                       = show_int (sint (s_Size s) - sint (old_Blobsize old)))
         else s_MetaData s' ''sizeDiff'' = Some (FormatInt (s_Size s))
              \<and> md_get (s_MetaData s') ''sizeDiff'' = show_int (sint (s_Size s))))
   \<and> (\<not> s_NodeExists s
      \<and> e_ReadSpaceRoot env = None \<and> e_CheckLock env = None
      \<and> InternalPath l (s_SpaceID s) (s_NodeID s) \<noteq> []
      \<and> files w (InternalPath l (s_SpaceID s) (s_NodeID s)) = None
      \<and> (\<forall>op \<in> {OpMkdirAll, OpLock, OpOpenFile, OpSetXattrs}.
            e_os_error env op (InternalPath l (s_SpaceID s) (s_NodeID s)) = None)
      \<and> e_os_error env OpPersist (s_ID s) = None
      \<and> e_CheckQuota env False 0 (s_Size s) = None \<longrightarrow>
      (\<exists>w'. CreateNodeForUpload l st env s ia w =
         Returns (Inr (node_New (s_SpaceID s) (s_NodeID s) (s_NodeParentID s) (s_Filename s)
                         (s_Size s) (s_ID s)),
                  s\<lparr>s_MetaData := (s_MetaData s)(''sizeDiff'' \<mapsto> FormatInt (s_Size s))\<rparr>, w')))
   \<and> (s_NodeExists s \<and> disableVersioning st
      \<and> e_ReadSpaceRoot env = None \<and> e_CheckLock env = None
      \<and> e_os_error env OpLock (LockfilePath l (InternalPath l (s_SpaceID s) (s_NodeID s))) = None
      \<and> e_ReadNode env = Some old'
      \<and> e_CheckQuota env True (old_Blobsize old') (s_Size s) = None
      \<and> old_GetMTime old' = Inr oldNodeMtime
      \<and> CalculateEtag l (old_ID old') oldNodeMtime = Inr oldNodeEtag
      \<and> check_preconditions l s oldNodeEtag oldNodeMtime = None
      \<and> files w (InternalPath l (s_SpaceID s) (s_NodeID s)) = Some f
      \<and> (\<forall>op \<in> {OpChtimes, OpSetXattrs}.
            e_os_error env op (InternalPath l (s_SpaceID s) (s_NodeID s)) = None)
      \<and> e_os_error env OpPersist (s_ID s) = None \<longrightarrow>
      (\<exists>w'. CreateNodeForUpload l st env s ia w =
         Returns (Inr (node_New (s_SpaceID s) (s_NodeID s) (s_NodeParentID s) (s_Filename s)
                         (s_Size s) (s_ID s)),
                  s\<lparr>s_MetaData := (s_MetaData s)
                       (''sizeDiff'' \<mapsto> FormatInt (s_Size s - old_Blobsize old'),
                        ''versionsPath'' \<mapsto> InternalPath l (s_SpaceID s) (s_NodeID s))\<rparr>, w')))"
proof (intro conjI impI)
  assume ok: "CreateNodeForUpload l st env s ia w = Returns (Inr n, s', w')"
  from CreateNodeForUpload_returned_sizeDiff [OF ok]
  show "persisted w' (s_ID s) = Some s'" by simp
  from CreateNodeForUpload_returned_sizeDiff [OF ok]
  show "if s_NodeExists s
         then \<exists>old. e_ReadNode env = Some old
                \<and> s_MetaData s' ''sizeDiff'' = Some (FormatInt (s_Size s - old_Blobsize old))
                \<and> (0 \<le> sint (s_Size s) \<and> 0 \<le> sint (old_Blobsize old) \<longrightarrow>
                     md_get (s_MetaData s') ''sizeDiff''
                       = show_int (sint (s_Size s) - sint (old_Blobsize old)))
         else s_MetaData s' ''sizeDiff'' = Some (FormatInt (s_Size s))
              \<and> md_get (s_MetaData s') ''sizeDiff'' = show_int (sint (s_Size s))"
    by (auto simp: md_get_def FormatInt_def sint_sub_nonneg)
next
  assume a: "\<not> s_NodeExists s
      \<and> e_ReadSpaceRoot env = None \<and> e_CheckLock env = None
      \<and> InternalPath l (s_SpaceID s) (s_NodeID s) \<noteq> []
      \<and> files w (InternalPath l (s_SpaceID s) (s_NodeID s)) = None
      \<and> (\<forall>op \<in> {OpMkdirAll, OpLock, OpOpenFile, OpSetXattrs}.
            e_os_error env op (InternalPath l (s_SpaceID s) (s_NodeID s)) = None)
      \<and> e_os_error env OpPersist (s_ID s) = None
      \<and> e_CheckQuota env False 0 (s_Size s) = None"
  then show "\<exists>w'. CreateNodeForUpload l st env s ia w =
         Returns (Inr (node_New (s_SpaceID s) (s_NodeID s) (s_NodeParentID s) (s_Filename s)
                         (s_Size s) (s_ID s)),
                  s\<lparr>s_MetaData := (s_MetaData s)(''sizeDiff'' \<mapsto> FormatInt (s_Size s))\<rparr>, w')"
    by (intro CreateNodeForUpload_new_target) simp_all
next
  assume a: "s_NodeExists s \<and> disableVersioning st
      \<and> e_ReadSpaceRoot env = None \<and> e_CheckLock env = None
      \<and> e_os_error env OpLock (LockfilePath l (InternalPath l (s_SpaceID s) (s_NodeID s))) = None
      \<and> e_ReadNode env = Some old'
      \<and> e_CheckQuota env True (old_Blobsize old') (s_Size s) = None
      \<and> old_GetMTime old' = Inr oldNodeMtime
      \<and> CalculateEtag l (old_ID old') oldNodeMtime = Inr oldNodeEtag
      \<and> check_preconditions l s oldNodeEtag oldNodeMtime = None
      \<and> files w (InternalPath l (s_SpaceID s) (s_NodeID s)) = Some f
      \<and> (\<forall>op \<in> {OpChtimes, OpSetXattrs}.
            e_os_error env op (InternalPath l (s_SpaceID s) (s_NodeID s)) = None)
      \<and> e_os_error env OpPersist (s_ID s) = None"
  then show "\<exists>w'. CreateNodeForUpload l st env s ia w =
         Returns (Inr (node_New (s_SpaceID s) (s_NodeID s) (s_NodeParentID s) (s_Filename s)
                         (s_Size s) (s_ID s)),
                  s\<lparr>s_MetaData := (s_MetaData s)
                       (''sizeDiff'' \<mapsto> FormatInt (s_Size s - old_Blobsize old'),
                        ''versionsPath'' \<mapsto> InternalPath l (s_SpaceID s) (s_NodeID s))\<rparr>, w')"
    by (intro CreateNodeForUpload_existing_target [where old = old' and oldNodeMtime = oldNodeMtime
          and oldNodeEtag = oldNodeEtag and f = f]) simp_all
qed

text \<open>
  An upload of 8 bytes to the new node \<open>n2\<close>: the call returns the node and \<open>sizeDiff\<close> is 8.
  An upload of 8 bytes over the node \<open>n1\<close> of 5 bytes, with versioning disabled: the call
  returns the node and \<open>sizeDiff\<close> is 3. The session is persisted with the entry both times.
\<close>

theorem CreateNodeForUpload_sizeDiff_witness:
  "\<not> s_NodeExists ex_session_new
   \<and> (\<exists>w'. CreateNodeForUpload ex_lib \<lparr>disableVersioning = False\<rparr> ex_env ex_session_new
              Map.empty ex_world
            = Returns (Inr (node_New ''sp'' ''n2'' ''p1'' ''b.txt'' 8 ''u1''),
                       ex_session_new\<lparr>s_MetaData := [''sizeDiff'' \<mapsto> ''8'']\<rparr>, w')
          \<and> persisted w' ''u1''
              = Some (ex_session_new\<lparr>s_MetaData := [''sizeDiff'' \<mapsto> ''8'']\<rparr>))
   \<and> s_NodeExists ex_session
   \<and> (\<exists>w'. CreateNodeForUpload ex_lib \<lparr>disableVersioning = True\<rparr> ex_env ex_session
              Map.empty ex_world
            = Returns (Inr (node_New ''sp'' ''n1'' ''p1'' ''a.txt'' 8 ''u1''),
                       ex_session\<lparr>s_MetaData := [''sizeDiff'' \<mapsto> ''3'',
                                                   ''versionsPath'' \<mapsto> ''/spaces/sp/nodes/n1'']\<rparr>,
                       w')
          \<and> persisted w' ''u1''
              = Some (ex_session\<lparr>s_MetaData := [''sizeDiff'' \<mapsto> ''3'',
                                     ''versionsPath'' \<mapsto> ''/spaces/sp/nodes/n1'']\<rparr>))"
proof -
  have f8: "FormatInt 8 = ''8''" and f3: "FormatInt (8 - 5) = ''3''"
    by (simp_all add: FormatInt_def show_int_def show_nat.simps)
  have new: "\<not> s_NodeExists ex_session_new"
    by (simp add: ex_session_new_def)
  have old: "s_NodeExists ex_session"
    by (simp add: ex_session_def)
  have "\<exists>w'. CreateNodeForUpload ex_lib \<lparr>disableVersioning = False\<rparr> ex_env ex_session_new
              Map.empty ex_world
            = Returns (Inr (node_New (s_SpaceID ex_session_new) (s_NodeID ex_session_new)
                              (s_NodeParentID ex_session_new) (s_Filename ex_session_new)
                              (s_Size ex_session_new) (s_ID ex_session_new)),
                       ex_session_new\<lparr>s_MetaData := (s_MetaData ex_session_new)
                          (''sizeDiff'' \<mapsto> FormatInt (s_Size ex_session_new))\<rparr>, w')"
    by (rule CreateNodeForUpload_sizeDiff [where l = ex_lib and env = ex_env
          and s = ex_session_new and w = ex_world, THEN conjunct2, THEN conjunct1, THEN mp])
       (simp add: ex_lib_def ex_env_def ex_session_def ex_session_new_def ex_world_def)
  then obtain w1 where r1: "CreateNodeForUpload ex_lib \<lparr>disableVersioning = False\<rparr> ex_env
              ex_session_new Map.empty ex_world
            = Returns (Inr (node_New (s_SpaceID ex_session_new) (s_NodeID ex_session_new)
                              (s_NodeParentID ex_session_new) (s_Filename ex_session_new)
                              (s_Size ex_session_new) (s_ID ex_session_new)),
                       ex_session_new\<lparr>s_MetaData := (s_MetaData ex_session_new)
                          (''sizeDiff'' \<mapsto> FormatInt (s_Size ex_session_new))\<rparr>, w1)" ..
  from CreateNodeForUpload_sizeDiff [THEN conjunct1, THEN mp, OF r1]
  have p1: "persisted w1 (s_ID ex_session_new)
              = Some (ex_session_new\<lparr>s_MetaData := (s_MetaData ex_session_new)
                          (''sizeDiff'' \<mapsto> FormatInt (s_Size ex_session_new))\<rparr>)"
    by simp
  have "\<exists>w'. CreateNodeForUpload ex_lib \<lparr>disableVersioning = True\<rparr> ex_env ex_session
              Map.empty ex_world
            = Returns (Inr (node_New (s_SpaceID ex_session) (s_NodeID ex_session)
                              (s_NodeParentID ex_session) (s_Filename ex_session)
                              (s_Size ex_session) (s_ID ex_session)),
                       ex_session\<lparr>s_MetaData := (s_MetaData ex_session)
                          (''sizeDiff'' \<mapsto> FormatInt (s_Size ex_session - 5),
                           ''versionsPath'' \<mapsto> InternalPath ex_lib (s_SpaceID ex_session)
                                                   (s_NodeID ex_session))\<rparr>, w')"
    using CreateNodeForUpload_sizeDiff [where l = ex_lib and env = ex_env
          and st = "\<lparr>disableVersioning = True\<rparr>"
          and s = ex_session and w = ex_world and ia = Map.empty
          and old' = "\<lparr>old_ID = ''n1'', old_Blobsize = 5, old_GetMTime = Inr 5\<rparr>"
          and oldNodeMtime = 5 and oldNodeEtag = "''n1:5''"
          and f = "\<lparr>f_mtime = 5,
         f_attrs = [''user.ocis.blobid'' \<mapsto> ''b0'', ''user.ocis.blobsize'' \<mapsto> ''5'',
                    ''user.ocis.mtime'' \<mapsto> ''5'', ''user.ocis.name'' \<mapsto> ''a.txt'']\<rparr>",
          THEN conjunct2, THEN conjunct2]
    by (simp add: ex_lib_def ex_env_def ex_session_def ex_world_def check_preconditions_def
          show_int_def show_nat.simps)
  then obtain w2 where r2: "CreateNodeForUpload ex_lib \<lparr>disableVersioning = True\<rparr> ex_env ex_session
              Map.empty ex_world
            = Returns (Inr (node_New (s_SpaceID ex_session) (s_NodeID ex_session)
                              (s_NodeParentID ex_session) (s_Filename ex_session)
                              (s_Size ex_session) (s_ID ex_session)),
                       ex_session\<lparr>s_MetaData := (s_MetaData ex_session)
                          (''sizeDiff'' \<mapsto> FormatInt (s_Size ex_session - 5),
                           ''versionsPath'' \<mapsto> InternalPath ex_lib (s_SpaceID ex_session)
                                                   (s_NodeID ex_session))\<rparr>, w2)" ..
  from CreateNodeForUpload_sizeDiff [THEN conjunct1, THEN mp, OF r2]
  have p2: "persisted w2 (s_ID ex_session)
              = Some (ex_session\<lparr>s_MetaData := (s_MetaData ex_session)
                          (''sizeDiff'' \<mapsto> FormatInt (s_Size ex_session - 5),
                           ''versionsPath'' \<mapsto> InternalPath ex_lib (s_SpaceID ex_session)
                                                   (s_NodeID ex_session))\<rparr>)"
    by simp
  have a: "\<exists>w'. CreateNodeForUpload ex_lib \<lparr>disableVersioning = False\<rparr> ex_env ex_session_new
              Map.empty ex_world
            = Returns (Inr (node_New ''sp'' ''n2'' ''p1'' ''b.txt'' 8 ''u1''),
                       ex_session_new\<lparr>s_MetaData := [''sizeDiff'' \<mapsto> ''8'']\<rparr>, w')
          \<and> persisted w' ''u1''
              = Some (ex_session_new\<lparr>s_MetaData := [''sizeDiff'' \<mapsto> ''8'']\<rparr>)"
    using r1 p1 f8 by (intro exI [of _ w1]) (simp add: ex_session_new_def ex_session_def)
  have b: "\<exists>w'. CreateNodeForUpload ex_lib \<lparr>disableVersioning = True\<rparr> ex_env ex_session
              Map.empty ex_world
            = Returns (Inr (node_New ''sp'' ''n1'' ''p1'' ''a.txt'' 8 ''u1''),
                       ex_session\<lparr>s_MetaData := [''sizeDiff'' \<mapsto> ''3'',
                                                   ''versionsPath'' \<mapsto> ''/spaces/sp/nodes/n1'']\<rparr>,
                       w')
          \<and> persisted w' ''u1''
              = Some (ex_session\<lparr>s_MetaData := [''sizeDiff'' \<mapsto> ''3'',
                                     ''versionsPath'' \<mapsto> ''/spaces/sp/nodes/n1'']\<rparr>)"
    using r2 p2 f3 by (intro exI [of _ w2]) (simp add: ex_session_def ex_lib_def)
  from new old a b show ?thesis by blast
qed

subsection \<open>Client preconditions\<close>

lemma updateExistingNode_precondition:
  assumes lock: "e_os_error env OpLock (LockfilePath l (InternalPath l (n_SpaceID n) (n_ID n))) = None"
    and rn: "e_ReadNode env = Some old"
    and quota: "e_CheckQuota env True (old_Blobsize old) fsize = None"
    and mt: "old_GetMTime old = Inr oldNodeMtime"
    and et: "CalculateEtag l (old_ID old) oldNodeMtime = Inr oldNodeEtag"
    and pre: "check_preconditions l s oldNodeEtag oldNodeMtime = Some e"
  shows "updateExistingNode l st env s n sp fsize w =
           Returns (Some (LockfilePath l (InternalPath l (n_SpaceID n) (n_ID n))), Some e, s,
            w\<lparr>lock_log := lock_log w
                 @ [Locked (LockfilePath l (InternalPath l (n_SpaceID n) (n_ID n)))]\<rparr>)"
  using assms by (simp add: updateExistingNode_def Let_def)

lemma check_preconditions_violated:
  assumes "(s_HeaderIfMatch s \<noteq> [] \<and> s_HeaderIfMatch s \<noteq> oldNodeEtag)
         \<or> s_HeaderIfNoneMatch s = ''*''
         \<or> (s_HeaderIfNoneMatch s \<noteq> [] \<and> oldNodeEtag \<in> set (Split_comma (s_HeaderIfNoneMatch s)))
         \<or> (s_HeaderIfUnmodifiedSince s \<noteq> []
             \<and> (\<exists>t. Parse_RFC3339Nano l (s_HeaderIfUnmodifiedSince s) = Some t \<and> t < oldNodeMtime))"
  shows "\<exists>m. check_preconditions l s oldNodeEtag oldNodeMtime = Some (Aborted m)"
  using assms by (auto simp: check_preconditions_def)

text \<open>
  Claim C2, as amended. For every upload session whose target node already exists, when the
  steps before the precondition checks pass (the space root is read, the node is not locked,
  the lock file is opened, the old node is read, the quota check passes, the old mtime is read
  and the etag computed), CreateNodeForUpload returns the error Aborted when a client
  precondition is violated: the if-match
  header is non-empty and differs from the current etag; the if-none-match header is \<open>*\<close> or
  one of the elements of its split at commas is the current etag; the if-unmodified-since
  header is set, parses, and the current mtime is later than it. The session and the node
  entries are left as they were.
\<close>

theorem CreateNodeForUpload_precondition_Aborted:
  assumes ex: "s_NodeExists s"
    and root: "e_ReadSpaceRoot env = None"
    and chk: "e_CheckLock env = None"
    and lock: "e_os_error env OpLock
                 (LockfilePath l (InternalPath l (s_SpaceID s) (s_NodeID s))) = None"
    and rn: "e_ReadNode env = Some old"
    and quota: "e_CheckQuota env True (old_Blobsize old) (s_Size s) = None"
    and mt: "old_GetMTime old = Inr oldNodeMtime"
    and et: "CalculateEtag l (old_ID old) oldNodeMtime = Inr oldNodeEtag"
    and viol: "(s_HeaderIfMatch s \<noteq> [] \<and> s_HeaderIfMatch s \<noteq> oldNodeEtag)
         \<or> s_HeaderIfNoneMatch s = ''*''
         \<or> (s_HeaderIfNoneMatch s \<noteq> [] \<and> oldNodeEtag \<in> set (Split_comma (s_HeaderIfNoneMatch s)))
         \<or> (s_HeaderIfUnmodifiedSince s \<noteq> []
             \<and> (\<exists>t. Parse_RFC3339Nano l (s_HeaderIfUnmodifiedSince s) = Some t \<and> t < oldNodeMtime))"
  shows "\<exists>r. CreateNodeForUpload l st env s initAttrs w = Returns r
           \<and> isAborted (fst r) \<and> fst (snd r) = s \<and> files (snd (snd r)) = files w"
proof -
  let ?n = "node_New (s_SpaceID s) (s_NodeID s) (s_NodeParentID s) (s_Filename s) (s_Size s) (s_ID s)"
  let ?lf = "LockfilePath l (InternalPath l (s_SpaceID s) (s_NodeID s))"
  from check_preconditions_violated [OF viol]
  obtain m where pre: "check_preconditions l s oldNodeEtag oldNodeMtime = Some (Aborted m)" ..
  have lock': "e_os_error env OpLock (LockfilePath l (InternalPath l (n_SpaceID ?n) (n_ID ?n))) = None"
    using lock by (simp add: node_New_def)
  have up: "updateExistingNode l st env s ?n (s_SpaceID s) (s_Size s) w =
           Returns (Some ?lf, Some (Aborted m), s, w\<lparr>lock_log := lock_log w @ [Locked ?lf]\<rparr>)"
    using updateExistingNode_precondition [OF lock' rn quota mt et pre, of st "s_SpaceID s" w]
    by (simp add: node_New_def)
  have "CreateNodeForUpload l st env s initAttrs w =
          Returns (Inl (Aborted m), s, w\<lparr>lock_log := lock_log w @ [Locked ?lf, Unlocked ?lf]\<rparr>)"
    using ex root chk up
    by (simp add: CreateNodeForUpload_def Let_def write_node_def run_deferred_unlock_def)
  then show ?thesis by simp
qed

text \<open>
  An if-match header that is not the etag of the existing node: Aborted.
\<close>

theorem CreateNodeForUpload_precondition_witness:
  "s_NodeExists ex_session_ifmatch
   \<and> s_HeaderIfMatch ex_session_ifmatch \<noteq> []
   \<and> s_HeaderIfMatch ex_session_ifmatch \<noteq> ''n1:5''
   \<and> (\<exists>r. CreateNodeForUpload ex_lib \<lparr>disableVersioning = False\<rparr> ex_env
               ex_session_ifmatch Map.empty ex_world = Returns r
            \<and> isAborted (fst r) \<and> fst (snd r) = ex_session_ifmatch
            \<and> files (snd (snd r)) = files ex_world)"
proof -
  have ex: "s_NodeExists ex_session_ifmatch" by (simp add: ex_lib_def ex_env_def ex_session_def ex_world_def ex_session_ifmatch_def)
  have root: "e_ReadSpaceRoot ex_env = None" by (simp add: ex_lib_def ex_env_def ex_session_def ex_world_def ex_session_ifmatch_def)
  have chk: "e_CheckLock ex_env = None" by (simp add: ex_lib_def ex_env_def ex_session_def ex_world_def ex_session_ifmatch_def)
  have lock: "e_os_error ex_env OpLock
     (LockfilePath ex_lib (InternalPath ex_lib (s_SpaceID ex_session_ifmatch)
        (s_NodeID ex_session_ifmatch))) = None" by (simp add: ex_lib_def ex_env_def ex_session_def ex_world_def ex_session_ifmatch_def)
  let ?old = "\<lparr>old_ID = ''n1'', old_Blobsize = 5, old_GetMTime = Inr 5\<rparr>"
  have rn: "e_ReadNode ex_env = Some ?old" by (simp add: ex_env_def)
  have quota: "e_CheckQuota ex_env True (old_Blobsize ?old) (s_Size ex_session_ifmatch) = None"
    by (simp add: ex_lib_def ex_env_def ex_session_def ex_world_def ex_session_ifmatch_def)
  have mt: "old_GetMTime ?old = Inr 5" by simp
  have et: "CalculateEtag ex_lib (old_ID ?old) 5 = Inr ''n1:5''"
    by (simp add: ex_lib_def ex_env_def ex_session_def ex_world_def show_int_def show_nat.simps)
  have hd: "s_HeaderIfMatch ex_session_ifmatch \<noteq> [] \<and> s_HeaderIfMatch ex_session_ifmatch \<noteq> ''n1:5''"
    by (simp add: ex_lib_def ex_env_def ex_session_def ex_world_def ex_session_ifmatch_def)
  then have viol: "(s_HeaderIfMatch ex_session_ifmatch \<noteq> [] \<and> s_HeaderIfMatch ex_session_ifmatch \<noteq> ''n1:5'')
         \<or> s_HeaderIfNoneMatch ex_session_ifmatch = ''*''
         \<or> (s_HeaderIfNoneMatch ex_session_ifmatch \<noteq> []
             \<and> ''n1:5'' \<in> set (Split_comma (s_HeaderIfNoneMatch ex_session_ifmatch)))
         \<or> (s_HeaderIfUnmodifiedSince ex_session_ifmatch \<noteq> []
             \<and> (\<exists>t. Parse_RFC3339Nano ex_lib (s_HeaderIfUnmodifiedSince ex_session_ifmatch) = Some t
                     \<and> t < 5))" by blast
  from CreateNodeForUpload_precondition_Aborted [OF ex root chk lock rn quota mt et viol] ex hd
  show ?thesis by simp
qed

text \<open>
  The claim as stated, without the steps before the checks, fails: when the quota check
  fails, the same request ends in the error of the quota check, not in Aborted.
\<close>

theorem CreateNodeForUpload_precondition_counterexample:
  "s_NodeExists ex_session_ifmatch
   \<and> e_ReadNode ex_env_quota
       = Some \<lparr>old_ID = ''n1'', old_Blobsize = 5, old_GetMTime = Inr 5\<rparr>
   \<and> CalculateEtag ex_lib ''n1'' 5 = Inr ''n1:5''
   \<and> s_HeaderIfMatch ex_session_ifmatch \<noteq> []
   \<and> s_HeaderIfMatch ex_session_ifmatch \<noteq> ''n1:5''
   \<and> CreateNodeForUpload ex_lib \<lparr>disableVersioning = False\<rparr> ex_env_quota
         ex_session_ifmatch Map.empty ex_world
       = Returns (Inl (InsufficientStorage ''quota exceeded''), ex_session_ifmatch,
                  ex_world\<lparr>lock_log := [Locked ''/spaces/sp/nodes/n1.lock'',
                                          Unlocked ''/spaces/sp/nodes/n1.lock'']\<rparr>)
   \<and> \<not> isAborted (Inl (InsufficientStorage ''quota exceeded'') :: error + node)"
  by (simp add: ex_lib_def ex_env_def ex_session_def ex_world_def ex_env_quota_def ex_session_ifmatch_def
        CreateNodeForUpload_def updateExistingNode_def create_version_def record_version_def
        check_preconditions_def write_node_def SetXattrs_def Persist_def os_Chtimes_def
        os_Create_def CopyMetadataWithSourceLock_def run_deferred_unlock_def
        Let_def md_get_def node_New_def show_int_def show_nat.simps)

subsection \<open>The version node\<close>

text \<open>
  With versioning enabled, updateExistingNode creates the version node at the
  \<open>versionsPath\<close> entry that the session metadata holds on entry, not at the version path it
  has just computed. A session without that entry ends in the error of \<open>os.Create\<close> on the
  empty path.
\<close>

lemma create_version_fresh_session_fails:
  assumes "\<not> disableVersioning st" and "s_MetaData s ''versionsPath'' = None"
  shows "create_version l st env s n spaceID fsize old oldNodeMtime w =
           (Some (OtherError ''open : no such file or directory''), s, w)"
  using assms by (simp add: create_version_def record_version_def md_get_def os_Create_def Let_def)

text \<open>
  Claim C1, evaluated: a fresh session that overwrites the existing node \<open>n1\<close> (mtime 5) with
  versioning enabled, the lock, quota and precondition checks passing. The version path is
  \<open>/spaces/sp/nodes/n1.REV.5\<close>; CreateNodeForUpload fails, and no version node exists at
  that path afterwards.
\<close>

theorem CreateNodeForUpload_version_node_missing:
  "InternalPath ex_lib (s_SpaceID ex_session)
     (s_NodeID ex_session @ RevisionIDDelimiter ex_lib @ Format_RFC3339Nano ex_lib 5)
     = ''/spaces/sp/nodes/n1.REV.5''
   \<and> (\<exists>r. CreateNodeForUpload ex_lib \<lparr>disableVersioning = False\<rparr> ex_env ex_session
               Map.empty ex_world = Returns r
            \<and> fst r = Inl (OtherError ''open : no such file or directory'')
            \<and> files (snd (snd r)) ''/spaces/sp/nodes/n1.REV.5'' = None)"
  by (simp add: ex_lib_def ex_env_def ex_session_def ex_world_def
        CreateNodeForUpload_def updateExistingNode_def create_version_def record_version_def
        check_preconditions_def write_node_def SetXattrs_def Persist_def os_Chtimes_def
        os_Create_def CopyMetadataWithSourceLock_def run_deferred_unlock_def
        Let_def md_get_def node_New_def show_int_def show_nat.simps)

text \<open>
  When the session metadata holds the path of an earlier version, the node is created and the
  attributes are copied at that earlier path, and setting the mtime of the new version path
  fails, since nothing was created there.
\<close>

lemma CreateNodeForUpload_version_node_stale_path:
  "\<exists>r. CreateNodeForUpload ex_lib \<lparr>disableVersioning = False\<rparr> ex_env ex_session_stale
          Map.empty ex_world = Returns r
       \<and> fst r = Inl (InternalError
             ''failed to change mtime of version node: chtimes: no such file or directory'')
       \<and> files (snd (snd r)) ''/spaces/sp/nodes/n1.REV.5'' = None
       \<and> files (snd (snd r)) ''/spaces/sp/nodes/n1.REV.2'' \<noteq> None"
  by (simp add: ex_lib_def ex_env_def ex_session_def ex_world_def ex_session_stale_def
        CreateNodeForUpload_def updateExistingNode_def create_version_def record_version_def
        check_preconditions_def write_node_def SetXattrs_def Persist_def os_Chtimes_def
        os_Create_def CopyMetadataWithSourceLock_def run_deferred_unlock_def
        Let_def md_get_def node_New_def show_int_def show_nat.simps)

section \<open>Properties of the post-processing consumer\<close>

subsection \<open>Unknown outcomes\<close>

lemma pp_outcome_unknown:
  assumes "outcome \<noteq> PPOutcomeContinue" "outcome \<noteq> PPOutcomeAbort" "outcome \<noteq> PPOutcomeDelete"
  shows "pp_outcome ops up outcome fs = (True, True, fs)"
  using assms by (simp add: pp_outcome_def)

lemma pp_outcome_abort: "pp_outcome ops up PPOutcomeAbort fs = (True, True, fs)"
  by (simp add: pp_outcome_def)

lemma make_UploadReady_outcome:
  "make_UploadReady ops (ev\<lparr>pf_Outcome := outcome\<rparr>) up failed = make_UploadReady ops ev up failed"
  by (simp add: make_UploadReady_def)

lemma handle_kept:
  assumes "pp_outcome ops up (pf_Outcome ev) (pp_fs st) = (True, True, fs1)"
    and "pp_uploads st (pf_UploadID ev) = Some up"
  shows "pp_uploads (handle_PostprocessingFinished ops now ev st) = pp_uploads st
       \<and> (pp_published (handle_PostprocessingFinished ops now ev st) = pp_published st
          \<or> pp_published (handle_PostprocessingFinished ops now ev st)
               = pp_published st @ [make_UploadReady ops ev up True])"
  using assms
  by (auto simp: handle_PostprocessingFinished_def upload_Get_def upload_Cleanup_def publish_def
        Let_def split: sum.splits option.splits)

text \<open>
  Claim C4. A PostprocessingFinished event whose outcome is none of continue, abort and delete
  is handled exactly as the same event with outcome abort: the switch sets \<open>failed\<close> and
  \<open>keepUpload\<close>, the upload session stays stored for a retry, and the UploadReady event
  published for it, if one is published (the upload and its node can be read), carries
  \<open>failed = true\<close>.
\<close>

theorem unknown_outcome_treated_as_abort:
  assumes nc: "pf_Outcome ev \<noteq> PPOutcomeContinue"
    and na: "pf_Outcome ev \<noteq> PPOutcomeAbort"
    and nd: "pf_Outcome ev \<noteq> PPOutcomeDelete"
  shows "handle_PostprocessingFinished ops now ev st
           = handle_PostprocessingFinished ops now (ev\<lparr>pf_Outcome := PPOutcomeAbort\<rparr>) st
       \<and> pp_outcome ops up (pf_Outcome ev) fs = (True, True, fs)
       \<and> pp_uploads (handle_PostprocessingFinished ops now ev st) = pp_uploads st
       \<and> (pp_published (handle_PostprocessingFinished ops now ev st) = pp_published st
          \<or> (\<exists>r. pp_published (handle_PostprocessingFinished ops now ev st)
                    = pp_published st @ [r]
                  \<and> ur_UploadID r = pf_UploadID ev \<and> ur_Failed r))"
proof -
  have fl: "\<And>up fs. pp_outcome ops up (pf_Outcome ev) fs = (True, True, fs)"
    using pp_outcome_unknown [OF nc na nd] .
  have eq: "handle_PostprocessingFinished ops now ev st
           = handle_PostprocessingFinished ops now (ev\<lparr>pf_Outcome := PPOutcomeAbort\<rparr>) st"
    by (simp add: handle_PostprocessingFinished_def fl pp_outcome_abort
          make_UploadReady_outcome cong: sum.case_cong)
  have rest: "pp_uploads (handle_PostprocessingFinished ops now ev st) = pp_uploads st
       \<and> (pp_published (handle_PostprocessingFinished ops now ev st) = pp_published st
          \<or> (\<exists>r. pp_published (handle_PostprocessingFinished ops now ev st)
                    = pp_published st @ [r]
                  \<and> ur_UploadID r = pf_UploadID ev \<and> ur_Failed r))"
  proof (cases "pp_uploads st (pf_UploadID ev)")
    case None
    then show ?thesis by (simp add: handle_PostprocessingFinished_def upload_Get_def)
  next
    case (Some u)
    from handle_kept [OF fl Some, of now]
    show ?thesis by (auto simp: make_UploadReady_def)
  qed
  from eq fl rest show ?thesis by simp
qed

text \<open>The stored upload \<open>u1\<close> and an event with the outcome \<open>retry\<close>.\<close>

theorem unknown_outcome_witness:
  "pf_Outcome (ex_pf ''retry'') \<noteq> PPOutcomeContinue
   \<and> pf_Outcome (ex_pf ''retry'') \<noteq> PPOutcomeAbort
   \<and> pf_Outcome (ex_pf ''retry'') \<noteq> PPOutcomeDelete
   \<and> handle_PostprocessingFinished ex_ops 1 (ex_pf ''retry'') ex_pp_state
       = handle_PostprocessingFinished ex_ops 1 (ex_pf ''retry''\<lparr>pf_Outcome := PPOutcomeAbort\<rparr>) ex_pp_state
   \<and> pp_uploads (handle_PostprocessingFinished ex_ops 1 (ex_pf ''retry'') ex_pp_state) ''u1''
       = Some ex_upload
   \<and> map ur_Failed (pp_published (handle_PostprocessingFinished ex_ops 1 (ex_pf ''retry'') ex_pp_state))
       = [True]"
proof -
  have nc: "pf_Outcome (ex_pf ''retry'') \<noteq> PPOutcomeContinue"
    by (simp add: ex_pf_def PPOutcomeContinue_def)
  have na: "pf_Outcome (ex_pf ''retry'') \<noteq> PPOutcomeAbort"
    by (simp add: ex_pf_def PPOutcomeAbort_def)
  have nd: "pf_Outcome (ex_pf ''retry'') \<noteq> PPOutcomeDelete"
    by (simp add: ex_pf_def PPOutcomeDelete_def)
  have ev: "map ur_Failed (pp_published (handle_PostprocessingFinished ex_ops 1 (ex_pf ''retry'') ex_pp_state))
       = [True]"
    by (simp add: handle_PostprocessingFinished_def upload_Get_def upload_Cleanup_def publish_def
          pp_outcome_def make_UploadReady_def ex_ops_def ex_pp_state_def ex_pf_def ex_upload_def
          PPOutcomeContinue_def PPOutcomeAbort_def PPOutcomeDelete_def Let_def md_get_def)
  note t = unknown_outcome_treated_as_abort [OF nc na nd, of ex_ops 1 ex_pp_state]
  have eq: "handle_PostprocessingFinished ex_ops 1 (ex_pf ''retry'') ex_pp_state
       = handle_PostprocessingFinished ex_ops 1 (ex_pf ''retry''\<lparr>pf_Outcome := PPOutcomeAbort\<rparr>) ex_pp_state"
    using t [THEN conjunct1] .
  have "pp_uploads (handle_PostprocessingFinished ex_ops 1 (ex_pf ''retry'') ex_pp_state)
          = pp_uploads ex_pp_state"
    using t [THEN conjunct2, THEN conjunct2, THEN conjunct1] .
  then have kept: "pp_uploads (handle_PostprocessingFinished ex_ops 1 (ex_pf ''retry'') ex_pp_state) ''u1''
       = Some ex_upload"
    by (simp add: ex_pp_state_def)
  from nc na nd eq kept ev show ?thesis by blast
qed

subsection \<open>Replaying a PostprocessingFinished event\<close>

lemma handle_without_upload:
  "pp_uploads st (pf_UploadID ev) = None \<Longrightarrow> handle_PostprocessingFinished ops now ev st = st"
  by (simp add: handle_PostprocessingFinished_def upload_Get_def)

lemma handle_published:
  "pp_published (handle_PostprocessingFinished ops now ev st) = pp_published st
   \<or> (\<exists>r. pp_published (handle_PostprocessingFinished ops now ev st) = pp_published st @ [r]
           \<and> ur_UploadID r = pf_UploadID ev)"
  by (auto simp: handle_PostprocessingFinished_def upload_Get_def upload_Cleanup_def publish_def
        make_UploadReady_def Let_def split: sum.splits option.splits prod.splits)

lemma handle_removes_session:
  assumes up: "pp_uploads st (pf_UploadID ev) = Some up"
    and id: "up_ID up = pf_UploadID ev"
    and oc: "pp_outcome ops up (pf_Outcome ev) (pp_fs st) = (failed, False, fs1)"
    and rn: "op_ReadNode ops (md_get (up_Storage up) ''SpaceRoot'')
               (md_get (up_Storage up) ''NodeId'') fs1 = Inr n"
  shows "pp_uploads (handle_PostprocessingFinished ops now ev st) (pf_UploadID ev) = None"
  using assms
  by (simp add: handle_PostprocessingFinished_def upload_Get_def upload_Cleanup_def publish_def
        Let_def split: sum.splits option.splits)

lemma pp_outcome_delete: "pp_outcome ops up PPOutcomeDelete fs = (True, False, fs)"
  by (simp add: pp_outcome_def PPOutcomeDelete_def PPOutcomeAbort_def PPOutcomeContinue_def)

text \<open>
  Claim C3, as amended. When the first processing of a PostprocessingFinished event has removed
  the upload session (outcome delete, or continue with a successful finalize, the node being
  readable: \<open>handle_removes_session\<close>), or when there was no such session, processing the
  same event again changes nothing: the storage with the target node, the sessions and the
  published events are as after processing it once, and at most one UploadReady event was
  published for the upload id. The consumer keeps no record of the upload ids it has handled.
\<close>

theorem replay_after_session_removed:
  assumes gone: "pp_uploads (handle_PostprocessingFinished ops t1 ev st) (pf_UploadID ev) = None"
  shows "handle_PostprocessingFinished ops t2 ev (handle_PostprocessingFinished ops t1 ev st)
           = handle_PostprocessingFinished ops t1 ev st
       \<and> Postprocessing ops [(EvPostprocessingFinished ev, t1), (EvPostprocessingFinished ev, t2)] st
           = Postprocessing ops [(EvPostprocessingFinished ev, t1)] st
       \<and> (pp_published (Postprocessing ops
              [(EvPostprocessingFinished ev, t1), (EvPostprocessingFinished ev, t2)] st)
            = pp_published st
          \<or> (\<exists>r. pp_published (Postprocessing ops
                     [(EvPostprocessingFinished ev, t1), (EvPostprocessingFinished ev, t2)] st)
                   = pp_published st @ [r]
                  \<and> ur_UploadID r = pf_UploadID ev))"
proof -
  have noop: "handle_PostprocessingFinished ops t2 ev (handle_PostprocessingFinished ops t1 ev st)
           = handle_PostprocessingFinished ops t1 ev st"
    using handle_without_upload [OF gone] .
  then have twice: "Postprocessing ops
       [(EvPostprocessingFinished ev, t1), (EvPostprocessingFinished ev, t2)] st
     = handle_PostprocessingFinished ops t1 ev st"
    by (simp add: handle_event_def)
  have once: "Postprocessing ops [(EvPostprocessingFinished ev, t1)] st
     = handle_PostprocessingFinished ops t1 ev st"
    by (simp add: handle_event_def)
  from noop twice once handle_published [of ops t1 ev st] show ?thesis by simp
qed

text \<open>
  When the session is kept (outcome abort) and its node stays readable, every processing of the
  event publishes an UploadReady event.
\<close>

lemma replay_kept_session_publishes_again:
  fixes ops :: "'fs pp_ops"
  assumes up: "pp_uploads st (pf_UploadID ev) = Some up"
    and oc: "pf_Outcome ev = PPOutcomeAbort"
    and rn: "\<And>fs. \<exists>n. op_ReadNode ops (md_get (up_Storage up) ''SpaceRoot'')
               (md_get (up_Storage up) ''NodeId'') fs = Inr n"
    and pub: "op_Publish ops (make_UploadReady ops ev up True) = None"
  shows "pp_published (Postprocessing ops
            [(EvPostprocessingFinished ev, t1), (EvPostprocessingFinished ev, t2)] st)
         = pp_published st @ [make_UploadReady ops ev up True, make_UploadReady ops ev up True]"
proof -
  have step: "\<And>(s :: 'fs pp_state) now. pp_uploads s (pf_UploadID ev) = Some up \<Longrightarrow>
      pp_uploads (handle_PostprocessingFinished ops now ev s) = pp_uploads s
      \<and> pp_published (handle_PostprocessingFinished ops now ev s)
          = pp_published s @ [make_UploadReady ops ev up True]"
  proof -
    fix s :: "'fs pp_state" and now assume u: "pp_uploads s (pf_UploadID ev) = Some up"
    obtain n where n: "op_ReadNode ops (md_get (up_Storage up) ''SpaceRoot'')
               (md_get (up_Storage up) ''NodeId'') (pp_fs s) = Inr n"
      using rn by blast
    show "pp_uploads (handle_PostprocessingFinished ops now ev s) = pp_uploads s
      \<and> pp_published (handle_PostprocessingFinished ops now ev s)
          = pp_published s @ [make_UploadReady ops ev up True]"
      using u n oc pub
      by (simp add: handle_PostprocessingFinished_def upload_Get_def upload_Cleanup_def
            publish_def pp_outcome_def Let_def)
  qed
  from step [OF up, of t1]
  have a: "pp_uploads (handle_PostprocessingFinished ops t1 ev st) (pf_UploadID ev) = Some up"
    and b: "pp_published (handle_PostprocessingFinished ops t1 ev st)
          = pp_published st @ [make_UploadReady ops ev up True]"
    using up by simp_all
  from step [OF a, of t2] b show ?thesis by (simp add: handle_event_def)
qed

text \<open>The event with outcome delete for the stored upload \<open>u1\<close>, processed twice.\<close>

theorem replay_witness:
  "pp_uploads (handle_PostprocessingFinished ex_ops 1 (ex_pf ''delete'') ex_pp_state)
      (pf_UploadID (ex_pf ''delete'')) = None
   \<and> Postprocessing ex_ops [(EvPostprocessingFinished (ex_pf ''delete''), 1),
                            (EvPostprocessingFinished (ex_pf ''delete''), 2)] ex_pp_state
       = Postprocessing ex_ops [(EvPostprocessingFinished (ex_pf ''delete''), 1)] ex_pp_state
   \<and> map ur_UploadID (pp_published (Postprocessing ex_ops
         [(EvPostprocessingFinished (ex_pf ''delete''), 1),
          (EvPostprocessingFinished (ex_pf ''delete''), 2)] ex_pp_state)) = [''u1'']"
proof -
  have gone: "pp_uploads (handle_PostprocessingFinished ex_ops 1 (ex_pf ''delete'') ex_pp_state)
      (pf_UploadID (ex_pf ''delete'')) = None"
    by (simp add: handle_PostprocessingFinished_def upload_Get_def upload_Cleanup_def publish_def
          pp_outcome_def make_UploadReady_def ex_ops_def ex_pp_state_def ex_pf_def ex_upload_def
          PPOutcomeContinue_def PPOutcomeAbort_def PPOutcomeDelete_def Let_def md_get_def)
  note t = replay_after_session_removed [OF gone, of 2]
  have pubs: "map ur_UploadID (pp_published (Postprocessing ex_ops
         [(EvPostprocessingFinished (ex_pf ''delete''), 1)] ex_pp_state)) = [''u1'']"
    by (simp add: handle_event_def handle_PostprocessingFinished_def upload_Get_def
          upload_Cleanup_def publish_def
          pp_outcome_def make_UploadReady_def ex_ops_def ex_pp_state_def ex_pf_def ex_upload_def
          PPOutcomeContinue_def PPOutcomeAbort_def PPOutcomeDelete_def Let_def md_get_def)
  from gone t [THEN conjunct2, THEN conjunct1] pubs show ?thesis by simp
qed

text \<open>
  The claim as stated fails: the event with outcome abort, processed twice, publishes two
  UploadReady events for the upload id \<open>u1\<close>.
\<close>

theorem replay_counterexample:
  "map ur_UploadID (pp_published (Postprocessing ex_ops
      [(EvPostprocessingFinished (ex_pf ''abort''), 1),
       (EvPostprocessingFinished (ex_pf ''abort''), 2)] ex_pp_state)) = [''u1'', ''u1'']"
  by (simp add: handle_event_def handle_PostprocessingFinished_def upload_Get_def
          upload_Cleanup_def publish_def
          pp_outcome_def make_UploadReady_def ex_ops_def ex_pp_state_def ex_pf_def ex_upload_def
          PPOutcomeContinue_def PPOutcomeAbort_def PPOutcomeDelete_def Let_def md_get_def)

subsection \<open>An on-demand virus scan that asks for deletion\<close>

text \<open>
  The map of versions holds the mtimes of the revisions listed, and \<open>nv\<close> is the greatest
  of them.
\<close>

lemma collect_versions_props:
  "collect_versions revs m nv = (m', nv') \<Longrightarrow>
     nv \<le> nv'
     \<and> (\<forall>u\<in>set revs. rev_Mtime u \<le> nv')
     \<and> (nv' = nv \<or> nv' \<in> rev_Mtime ` set revs)
     \<and> (\<forall>t. t \<notin> rev_Mtime ` set revs \<longrightarrow> m' t = m t)
     \<and> (\<forall>t\<in>rev_Mtime ` set revs. \<exists>v\<in>set revs. rev_Mtime v = t \<and> m' t = Some (rev_Key v))"
proof (induction revs arbitrary: m nv)
  case Nil
  then show ?case by simp
next
  case (Cons v vs)
  let ?m = "m(rev_Mtime v \<mapsto> rev_Key v)"
  let ?nv = "if rev_Mtime v > nv then rev_Mtime v else nv"
  from Cons.prems have r: "collect_versions vs ?m ?nv = (m', nv')" by simp
  note ih = Cons.IH [OF r]
  have 1: "nv \<le> nv'" using ih by (auto split: if_splits)
  have 2: "\<forall>u\<in>set (v # vs). rev_Mtime u \<le> nv'" using ih by (auto split: if_splits)
  have 3: "nv' = nv \<or> nv' \<in> rev_Mtime ` set (v # vs)" using ih by (auto split: if_splits)
  have 4: "\<forall>t. t \<notin> rev_Mtime ` set (v # vs) \<longrightarrow> m' t = m t" using ih by auto
  have 5: "\<forall>t\<in>rev_Mtime ` set (v # vs). \<exists>u\<in>set (v # vs). rev_Mtime u = t \<and> m' t = Some (rev_Key u)"
  proof
    fix t assume t: "t \<in> rev_Mtime ` set (v # vs)"
    show "\<exists>u\<in>set (v # vs). rev_Mtime u = t \<and> m' t = Some (rev_Key u)"
    proof (cases "t \<in> rev_Mtime ` set vs")
      case True
      with ih show ?thesis by auto
    next
      case False
      with t have tv: "t = rev_Mtime v" by auto
      from ih False have "m' t = ?m t" by blast
      with tv show ?thesis by auto
    qed
  qed
  from 1 2 3 4 5 show ?case by blast
qed

lemma collect_versions_newest:
  assumes ne: "revs \<noteq> []" and c: "collect_versions revs Map.empty 0 = (versions, nv)"
  shows "\<exists>v\<in>set revs. md_get versions nv = rev_Key v \<and> rev_Mtime v = nv
           \<and> (\<forall>u\<in>set revs. rev_Mtime u \<le> rev_Mtime v)"
proof -
  note p = collect_versions_props [OF c]
  have le: "\<forall>u\<in>set revs. rev_Mtime u \<le> nv" using p by blast
  have mem: "nv \<in> rev_Mtime ` set revs"
  proof (cases "nv = 0")
    case True
    from ne obtain v where v: "v \<in> set revs" by (cases revs) auto
    with le True have "rev_Mtime v = 0" by auto
    with v True show ?thesis by force
  next
    case False
    with p show ?thesis by blast
  qed
  with p obtain v where "v \<in> set revs" "rev_Mtime v = nv" "versions nv = Some (rev_Key v)"
    by blast
  with le show ?thesis by (auto simp: md_get_def)
qed

lemma collect_versions_dom:
  assumes c: "collect_versions revs Map.empty 0 = (versions, nv)"
  shows "versions t = None \<longleftrightarrow> t \<notin> rev_Mtime ` set revs"
  using collect_versions_props [OF c] by force

lemma delete_new_revisions_calls:
  "pp_calls (delete_new_revisions ops rid versions revs2 st)
     = pp_calls st @ map (\<lambda>u. CallDeleteRevision rid (rev_Key u))
                       (filter (\<lambda>u. versions (rev_Mtime u) = None) revs2)"
  by (induction revs2 arbitrary: st) auto

text \<open>
  Claim C5, as amended. For every VirusscanFinished event without error message, with an empty
  upload id and outcome delete, whose resource resolves to a node: if ListRevisions returns at
  least one version, the consumer calls RestoreRevision with the key of a version of greatest
  mtime and, when that succeeds, calls DeleteRevision for every revision listed afterwards whose
  mtime was not among the earlier ones (the infected content, which the restore has filed as a
  revision), and makes no other call; if ListRevisions returns no version, the consumer calls
  Delete and, when that succeeds, PurgeRecycleItem on the space root with the node id as key.
\<close>

theorem virusscan_delete_on_demand:
  assumes noerr: "vf_ErrorMsg ev = []"
    and ondemand: "vf_UploadID ev = []"
    and del: "vf_Outcome ev = PPOutcomeDelete"
    and node: "op_NodeFromResource ops (vf_ResourceID ev) (pp_fs st) = Inr n"
    and list: "op_ListRevisions ops (vf_ResourceID ev) (pp_fs st) = (revs, err)"
  shows "(revs \<noteq> [] \<longrightarrow>
           (\<exists>v\<in>set revs. (\<forall>u\<in>set revs. rev_Mtime u \<le> rev_Mtime v)
              \<and> pp_calls (handle_VirusscanFinished ops ev st)
                  = pp_calls st @ CallRestoreRevision (vf_ResourceID ev) (rev_Key v) #
                      (case op_RestoreRevision ops (vf_ResourceID ev) (rev_Key v) (pp_fs st) of
                         (Some e, fs1) \<Rightarrow> []
                       | (None, fs1) \<Rightarrow>
                           map (\<lambda>u. CallDeleteRevision (vf_ResourceID ev) (rev_Key u))
                             (filter (\<lambda>u. rev_Mtime u \<notin> rev_Mtime ` set revs)
                                (fst (op_ListRevisions ops (vf_ResourceID ev) fs1))))))
       \<and> (revs = [] \<longrightarrow>
            pp_calls (handle_VirusscanFinished ops ev st)
              = pp_calls st @ CallDelete (vf_ResourceID ev) #
                  (case op_Delete ops (vf_ResourceID ev) (pp_fs st) of
                     (Some e, fs1) \<Rightarrow> []
                   | (None, fs1) \<Rightarrow>
                       [CallPurgeRecycleItem
                          \<lparr>rid_StorageId = [], rid_SpaceId = pn_SpaceID n,
                           rid_OpaqueId = pn_SpaceID n\<rparr> (pn_ID n) ''/'']))"
proof -
  have h: "handle_VirusscanFinished ops ev st = virusscan_delete ops ev n st"
    using noerr ondemand del node by (simp add: handle_VirusscanFinished_def)
  have empty: "revs = [] \<longrightarrow>
            pp_calls (virusscan_delete ops ev n st)
              = pp_calls st @ CallDelete (vf_ResourceID ev) #
                  (case op_Delete ops (vf_ResourceID ev) (pp_fs st) of
                     (Some e, fs1) \<Rightarrow> []
                   | (None, fs1) \<Rightarrow>
                       [CallPurgeRecycleItem
                          \<lparr>rid_StorageId = [], rid_SpaceId = pn_SpaceID n,
                           rid_OpaqueId = pn_SpaceID n\<rparr> (pn_ID n) ''/''])"
    using list
    by (auto simp: virusscan_delete_def Let_def remove_stat_def split: prod.splits option.splits)
  have nonempty: "revs \<noteq> [] \<longrightarrow>
           (\<exists>v\<in>set revs. (\<forall>u\<in>set revs. rev_Mtime u \<le> rev_Mtime v)
              \<and> pp_calls (virusscan_delete ops ev n st)
                  = pp_calls st @ CallRestoreRevision (vf_ResourceID ev) (rev_Key v) #
                      (case op_RestoreRevision ops (vf_ResourceID ev) (rev_Key v) (pp_fs st) of
                         (Some e, fs1) \<Rightarrow> []
                       | (None, fs1) \<Rightarrow>
                           map (\<lambda>u. CallDeleteRevision (vf_ResourceID ev) (rev_Key u))
                             (filter (\<lambda>u. rev_Mtime u \<notin> rev_Mtime ` set revs)
                                (fst (op_ListRevisions ops (vf_ResourceID ev) fs1)))))"
  proof
    assume ne: "revs \<noteq> []"
    obtain versions nv where c: "collect_versions revs Map.empty 0 = (versions, nv)"
      by (cases "collect_versions revs Map.empty 0") auto
    from collect_versions_newest [OF ne c] obtain v where
      v: "v \<in> set revs" "md_get versions nv = rev_Key v"
         "\<forall>u\<in>set revs. rev_Mtime u \<le> rev_Mtime v" by blast
    have dom: "\<And>t. (versions t = None) = (t \<notin> rev_Mtime ` set revs)"
      using collect_versions_dom [OF c] by simp
    have "pp_calls (virusscan_delete ops ev n st)
                  = pp_calls st @ CallRestoreRevision (vf_ResourceID ev) (rev_Key v) #
                      (case op_RestoreRevision ops (vf_ResourceID ev) (rev_Key v) (pp_fs st) of
                         (Some e, fs1) \<Rightarrow> []
                       | (None, fs1) \<Rightarrow>
                           map (\<lambda>u. CallDeleteRevision (vf_ResourceID ev) (rev_Key u))
                             (filter (\<lambda>u. rev_Mtime u \<notin> rev_Mtime ` set revs)
                                (fst (op_ListRevisions ops (vf_ResourceID ev) fs1))))"
      using list ne c v(2)
      by (auto simp: virusscan_delete_def Let_def remove_stat_def delete_new_revisions_calls dom
            split: prod.splits option.splits)
    with v show "\<exists>v\<in>set revs. (\<forall>u\<in>set revs. rev_Mtime u \<le> rev_Mtime v)
              \<and> pp_calls (virusscan_delete ops ev n st)
                  = pp_calls st @ CallRestoreRevision (vf_ResourceID ev) (rev_Key v) #
                      (case op_RestoreRevision ops (vf_ResourceID ev) (rev_Key v) (pp_fs st) of
                         (Some e, fs1) \<Rightarrow> []
                       | (None, fs1) \<Rightarrow>
                           map (\<lambda>u. CallDeleteRevision (vf_ResourceID ev) (rev_Key u))
                             (filter (\<lambda>u. rev_Mtime u \<notin> rev_Mtime ` set revs)
                                (fst (op_ListRevisions ops (vf_ResourceID ev) fs1))))"
      by blast
  qed
  from h empty nonempty show ?thesis by simp
qed

text \<open>
  A file with the revisions of mtime 3 and 5: the revision of mtime 5 is restored, and the
  revision of mtime 9 that the restore has filed is deleted.
\<close>

theorem virusscan_delete_witness:
  "vf_ErrorMsg (ex_vf []) = [] \<and> vf_UploadID (ex_vf []) = []
   \<and> vf_Outcome (ex_vf []) = PPOutcomeDelete
   \<and> fst (op_ListRevisions ex_ops (vf_ResourceID (ex_vf [])) (pp_fs ex_pp_state))
       = [\<lparr>rev_Key = ''n1.REV.3'', rev_Mtime = 3\<rparr>, \<lparr>rev_Key = ''n1.REV.5'', rev_Mtime = 5\<rparr>]
   \<and> (\<exists>v\<in>set [\<lparr>rev_Key = ''n1.REV.3'', rev_Mtime = 3\<rparr>, \<lparr>rev_Key = ''n1.REV.5'', rev_Mtime = 5\<rparr>].
         (\<forall>u\<in>set [\<lparr>rev_Key = ''n1.REV.3'', rev_Mtime = 3\<rparr>,
                    \<lparr>rev_Key = ''n1.REV.5'', rev_Mtime = 5\<rparr>]. rev_Mtime u \<le> rev_Mtime v)
         \<and> hd (pp_calls (handle_VirusscanFinished ex_ops (ex_vf []) ex_pp_state))
             = CallRestoreRevision (vf_ResourceID (ex_vf [])) (rev_Key v))
   \<and> pp_calls (handle_VirusscanFinished ex_ops (ex_vf []) ex_pp_state)
       = [CallRestoreRevision (vf_ResourceID (ex_vf [])) ''n1.REV.5'',
          CallDeleteRevision (vf_ResourceID (ex_vf [])) ''n1.REV.9'']"
proof -
  let ?revs = "[\<lparr>rev_Key = ''n1.REV.3'', rev_Mtime = 3\<rparr>, \<lparr>rev_Key = ''n1.REV.5'', rev_Mtime = (5 :: 64 word)\<rparr>]"
  let ?n = "\<lparr>pn_SpaceID = ''sp'', pn_ID = ''n1'', pn_ParentID = ''p1''\<rparr>"
  have noerr: "vf_ErrorMsg (ex_vf []) = []" by (simp add: ex_vf_def)
  have ondemand: "vf_UploadID (ex_vf []) = []" by (simp add: ex_vf_def)
  have del: "vf_Outcome (ex_vf []) = PPOutcomeDelete" by (simp add: ex_vf_def PPOutcomeDelete_def)
  have node: "op_NodeFromResource ex_ops (vf_ResourceID (ex_vf [])) (pp_fs ex_pp_state) = Inr ?n"
    by (simp add: ex_vf_def ex_ops_def)
  have list: "op_ListRevisions ex_ops (vf_ResourceID (ex_vf [])) (pp_fs ex_pp_state) = (?revs, None)"
    by (simp add: ex_ops_def ex_pp_state_def)
  have ne: "?revs \<noteq> []" by simp
  have calls: "pp_calls (handle_VirusscanFinished ex_ops (ex_vf []) ex_pp_state)
       = [CallRestoreRevision (vf_ResourceID (ex_vf [])) ''n1.REV.5'',
          CallDeleteRevision (vf_ResourceID (ex_vf [])) ''n1.REV.9'']"
    by (simp add: handle_VirusscanFinished_def virusscan_delete_def remove_stat_def
          ex_vf_def ex_ops_def ex_pp_state_def PPOutcomeDelete_def Let_def md_get_def)
  from virusscan_delete_on_demand [OF noerr ondemand del node list, THEN conjunct1, rule_format, OF ne]
  obtain v where v: "v \<in> set ?revs" "\<forall>u\<in>set ?revs. rev_Mtime u \<le> rev_Mtime v"
    "pp_calls (handle_VirusscanFinished ex_ops (ex_vf []) ex_pp_state)
       = pp_calls ex_pp_state @ CallRestoreRevision (vf_ResourceID (ex_vf [])) (rev_Key v) #
           (case op_RestoreRevision ex_ops (vf_ResourceID (ex_vf [])) (rev_Key v) (pp_fs ex_pp_state) of
              (Some e, fs1) \<Rightarrow> []
            | (None, fs1) \<Rightarrow>
                map (\<lambda>u. CallDeleteRevision (vf_ResourceID (ex_vf [])) (rev_Key u))
                  (filter (\<lambda>u. rev_Mtime u \<notin> rev_Mtime ` set ?revs)
                     (fst (op_ListRevisions ex_ops (vf_ResourceID (ex_vf [])) fs1))))"
    by blast
  from v(3) have "hd (pp_calls (handle_VirusscanFinished ex_ops (ex_vf []) ex_pp_state))
             = CallRestoreRevision (vf_ResourceID (ex_vf [])) (rev_Key v)"
    by (simp add: ex_pp_state_def)
  with v(1,2) have ex: "\<exists>v\<in>set ?revs. (\<forall>u\<in>set ?revs. rev_Mtime u \<le> rev_Mtime v)
         \<and> hd (pp_calls (handle_VirusscanFinished ex_ops (ex_vf []) ex_pp_state))
             = CallRestoreRevision (vf_ResourceID (ex_vf [])) (rev_Key v)" by blast
  from noerr ondemand del list ex calls show ?thesis by simp
qed

text \<open>
  The claim as stated, for every event with an empty upload id and outcome delete, fails: an
  event that carries an error message is skipped, and nothing is restored or deleted.
\<close>

theorem virusscan_delete_counterexample:
  "vf_UploadID (ex_vf ''scan failed'') = []
   \<and> vf_Outcome (ex_vf ''scan failed'') = PPOutcomeDelete
   \<and> fst (op_ListRevisions ex_ops (vf_ResourceID (ex_vf ''scan failed'')) (pp_fs ex_pp_state))
       = [\<lparr>rev_Key = ''n1.REV.3'', rev_Mtime = 3\<rparr>, \<lparr>rev_Key = ''n1.REV.5'', rev_Mtime = 5\<rparr>]
   \<and> handle_VirusscanFinished ex_ops (ex_vf ''scan failed'') ex_pp_state = ex_pp_state
   \<and> pp_calls (handle_VirusscanFinished ex_ops (ex_vf ''scan failed'') ex_pp_state) = []"
  by (simp add: handle_VirusscanFinished_def ex_vf_def ex_ops_def ex_pp_state_def
        PPOutcomeDelete_def)

section \<open>Properties of handleNew\<close>

text \<open>
  \<open>path.Split\<close> finds a directory part, or a base name other than the whole value, exactly
  when the value contains a slash.
\<close>

lemma path_Split_no_slash:
  "CHR ''/'' \<notin> set p \<Longrightarrow> path_Split p = ([], p)"
proof -
  assume a: "CHR ''/'' \<notin> set p"
  then have "takeWhile (\<lambda>c. c \<noteq> CHR ''/'') (rev p) = rev p"
    by (intro takeWhile_eq_all_conv [THEN iffD2]) auto
  then have "length (takeWhile (\<lambda>c. c \<noteq> CHR ''/'') (rev p)) = length p"
    by (simp only: length_rev)
  then show ?thesis by (simp add: path_Split_def Let_def)
qed

lemma path_Split_slash:
  assumes "CHR ''/'' \<in> set p"
  shows "fst (path_Split p) \<noteq> [] \<and> snd (path_Split p) \<noteq> p"
proof -
  let ?k = "length (takeWhile (\<lambda>c. c \<noteq> CHR ''/'') (rev p))"
  from assms have "CHR ''/'' \<in> set (rev p)" by simp
  then have neq: "takeWhile (\<lambda>c. c \<noteq> CHR ''/'') (rev p) \<noteq> rev p"
    by (simp add: takeWhile_eq_all_conv)
  have "?k \<noteq> length (rev p)"
  proof
    assume "?k = length (rev p)"
    then have "take ?k (rev p) = rev p" by simp
    with takeWhile_eq_take [of "\<lambda>c. c \<noteq> CHR ''/''" "rev p"] neq show False by simp
  qed
  moreover have "?k \<le> length (rev p)" by (rule length_takeWhile_le)
  ultimately have k: "?k < length p" by simp
  then have "take (length p - ?k) p \<noteq> []" by auto
  moreover have "drop (length p - ?k) p \<noteq> p"
  proof
    assume "drop (length p - ?k) p = p"
    then have "length (drop (length p - ?k) p) = length p" by (rule arg_cong)
    with k show False by simp
  qed
  ultimately show ?thesis by (simp add: path_Split_def Let_def)
qed

lemma path_segment_iff:
  "(fst (path_Split p) \<noteq> [] \<or> snd (path_Split p) \<noteq> p) \<longleftrightarrow> CHR ''/'' \<in> set p"
  using path_Split_no_slash [of p] path_Split_slash [of p]
  by (cases "CHR ''/'' \<in> set p") auto

text \<open>
  Claim C9, as amended. For every request to the new endpoint whose filename parameter contains
  a path segment (its directory part is non-empty or its base name differs from the full
  value), handleNew responds with an error and issues no stat, upload-initiation or
  data-transfer call; the error is an invalid-parameter error whenever the gateway client is
  obtained and the template parameter is empty, the two checks that come before those of the
  parent container id and of the filename.
\<close>

theorem handleNew_rejects_path_segment:
  assumes seg: "fst (path_Split (q_filename r)) \<noteq> [] \<or> snd (path_Split (q_filename r)) \<noteq> q_filename r"
  shows "snd (handleNew env r) = []
       \<and> (\<exists>code m. fst (handleNew env r) = RespError code m)
       \<and> (ne_GetGatewayServiceClient env \<and> q_template r = [] \<longrightarrow>
            (\<exists>m. fst (handleNew env r) = RespError appErrorInvalidParameter m))"
proof -
  from seg have ne: "q_filename r \<noteq> []"
    by (auto simp: path_Split_def)
  obtain d f where sp: "path_Split (q_filename r) = (d, f)"
    by (cases "path_Split (q_filename r)") auto
  with seg have bad: "d \<noteq> [] \<or> f \<noteq> q_filename r" by simp
  show ?thesis
    using ne sp bad
    by (auto simp: handleNew_def split: option.splits)
qed

text \<open>The filename \<open>docs/a.txt\<close>, and no template.\<close>

theorem handleNew_witness:
  "path_Split (q_filename (ex_new_request [] ''docs/a.txt'')) = (''docs/'', ''a.txt'')
   \<and> ne_GetGatewayServiceClient ex_new_env
   \<and> q_template (ex_new_request [] ''docs/a.txt'') = []
   \<and> handleNew ex_new_env (ex_new_request [] ''docs/a.txt'')
       = (RespError appErrorInvalidParameter ''the filename must not contain a path segment'', [])"
proof -
  have sp: "path_Split (q_filename (ex_new_request [] ''docs/a.txt'')) = (''docs/'', ''a.txt'')"
    by (simp add: path_Split_def ex_new_request_def)
  then have seg: "fst (path_Split (q_filename (ex_new_request [] ''docs/a.txt''))) \<noteq> []
      \<or> snd (path_Split (q_filename (ex_new_request [] ''docs/a.txt'')))
           \<noteq> q_filename (ex_new_request [] ''docs/a.txt'')"
    by simp
  have gw: "ne_GetGatewayServiceClient ex_new_env" by (simp add: ex_new_env_def)
  have tp: "q_template (ex_new_request [] ''docs/a.txt'') = []" by (simp add: ex_new_request_def)
  have ev: "handleNew ex_new_env (ex_new_request [] ''docs/a.txt'')
       = (RespError appErrorInvalidParameter ''the filename must not contain a path segment'', [])"
    by (simp add: handleNew_def path_Split_def ex_new_request_def ex_new_env_def)
  note t = handleNew_rejects_path_segment [OF seg, of ex_new_env]
  from t [THEN conjunct1] sp gw tp ev show ?thesis by simp
qed

text \<open>
  The claim as stated, for every request, fails: with a template parameter the same filename
  is answered with the error code for what is not implemented.
\<close>

theorem handleNew_counterexample:
  "path_Split (q_filename (ex_new_request ''letter'' ''docs/a.txt'')) = (''docs/'', ''a.txt'')
   \<and> handleNew ex_new_env (ex_new_request ''letter'' ''docs/a.txt'')
       = (RespError appErrorUnimplemented ''template is not implemented'', [])
   \<and> appErrorUnimplemented \<noteq> appErrorInvalidParameter"
  by (simp add: handleNew_def path_Split_def ex_new_request_def ex_new_env_def)

text \<open>A filename without a path segment goes through all the calls.\<close>

lemma handleNew_plain_name:
  "handleNew ex_new_env (ex_new_request [] ''a.txt'')
     = (RespFileID \<lparr>rid_StorageId = ''prov'', rid_SpaceId = ''sp'', rid_OpaqueId = ''n7''\<rparr>,
        [GwStatId \<lparr>rid_StorageId = ''prov'', rid_SpaceId = ''sp'', rid_OpaqueId = ''p1''\<rparr>,
         GwStatPath ''/home/docs/a.txt'',
         GwInitiateFileUpload ''/home/docs/a.txt'',
         GwHttpPut ''http://data/upload'' ''tok'',
         GwStatPath ''/home/docs/a.txt''])"
  by (simp add: handleNew_def create_file_def path_Split_def ex_new_request_def ex_new_env_def
        Let_def)

section \<open>Properties of the JSON share manager\<close>

lemma getByID_result:
  "getByID l shares ident = Inr s \<Longrightarrow> s \<in> set shares \<and> sh_Id s = ident"
  by (induction shares) (auto split: if_splits)

lemma getByID_error: "getByID l shares ident = Inl e \<Longrightarrow> e = NotFound (id_String l ident)"
  by (induction shares) (auto split: if_splits)

lemma getByKey_result: "getByKey l shares k = Inr s \<Longrightarrow> s \<in> set shares"
  by (induction shares) (auto split: if_splits)

lemma getByKey_error: "getByKey l shares k = Inl e \<Longrightarrow> e = NotFound (key_String l k)"
  by (induction shares) (auto split: if_splits)

lemma lookup_share_result: "lookup_share l shares ref = Inr s \<Longrightarrow> s \<in> set shares"
  by (auto simp: lookup_share_def split: share_reference.splits
           dest: getByID_result getByKey_result)

lemma lookup_share_error: "lookup_share l shares ref = Inl e \<Longrightarrow> \<exists>m. e = NotFound m"
  by (auto simp: lookup_share_def split: share_reference.splits
           dest: getByID_error getByKey_error)

text \<open>
  What GetShare answers. For a stored share that the reference resolves to and a requesting
  user who is neither its creator or owner (\<open>IsCreatedByUser\<close>) nor one of its grantees
  (\<open>IsGrantedToUser\<close>), it is the error NotFound with the rendering of the reference as its
  message (line 287). For a reference that matches no share it is the error NotFound with the
  rendering of the share id (line 246) or of the share key (line 258).
\<close>

lemma GetShare_foreign_share:
  assumes found: "lookup_share l shares ref = Inr s"
    and nc: "\<not> IsCreatedByUser l s user"
    and ng: "\<not> IsGrantedToUser l s user"
  shows "GetShare l shares user ref = Inl (NotFound (ref_String l ref))"
  using found nc ng by (simp add: GetShare_def get_share_def)

lemma getByID_no_share:
  "\<forall>s \<in> set shares. sh_Id s \<noteq> ident \<Longrightarrow>
     getByID l shares ident = Inl (NotFound (id_String l ident))"
  by (induction shares) auto

lemma GetShare_no_share_id:
  assumes "\<forall>s \<in> set shares. sh_Id s \<noteq> ident"
  shows "GetShare l shares user (RefId ident) = Inl (NotFound (id_String l ident))"
  using getByID_no_share [OF assms, of l]
  by (simp add: GetShare_def get_share_def lookup_share_def)

lemma GetShare_no_share_key:
  assumes "lookup_share l shares (RefKey k) = Inl e"
  shows "GetShare l shares user (RefKey k) = Inl (NotFound (key_String l k))"
  using assms getByKey_error [of l shares k e]
  by (simp add: GetShare_def get_share_def lookup_share_def)

lemma GetShare_NotFound_kind:
  assumes "(\<exists>s. lookup_share l shares ref = Inr s
                \<and> \<not> IsCreatedByUser l s user \<and> \<not> IsGrantedToUser l s user)
           \<or> (\<exists>e. lookup_share l shares ref = Inl e)"
  shows "isNotFound (GetShare l shares user ref)"
proof -
  from assms consider
    (hidden) s where "lookup_share l shares ref = Inr s"
      "\<not> IsCreatedByUser l s user" "\<not> IsGrantedToUser l s user"
  | (missing) e where "lookup_share l shares ref = Inl e"
    by blast
  then show ?thesis
  proof cases
    case hidden
    then show ?thesis by (simp add: GetShare_foreign_share)
  next
    case missing
    from lookup_share_error [OF missing] obtain m where "e = NotFound m" ..
    with missing show ?thesis by (simp add: GetShare_def get_share_def)
  qed
qed

text \<open>
  The two answers for a share id are the same exactly when the reference renders as its id
  does.
\<close>

lemma GetShare_same_answer_iff:
  assumes found: "lookup_share l shares (RefId ident) = Inr s"
    and nc: "\<not> IsCreatedByUser l s user"
    and ng: "\<not> IsGrantedToUser l s user"
    and absent: "\<forall>s \<in> set shares'. sh_Id s \<noteq> ident"
  shows "GetShare l shares user (RefId ident) = GetShare l shares' user (RefId ident)
           \<longleftrightarrow> ref_String l (RefId ident) = id_String l ident"
  using GetShare_foreign_share [OF found nc ng] GetShare_no_share_id [OF absent, of l user]
  by simp

text \<open>
  Claim C10, evaluated. The share \<open>s1\<close> of \<open>alice\<close> with \<open>bob\<close> is stored; the user
  \<open>mallory\<close>, who is neither its creator or owner nor its grantee, asks for it by id. GetShare
  returns NotFound, but not the result it returns for a reference that matches no share: the
  message is the rendering of the reference for the share that is stored, and the rendering of
  the share id for an id that matches nothing (the id \<open>s9\<close>, or the same id \<open>s1\<close> when the
  share is not stored). From the answer the user can tell that the share \<open>s1\<close> exists.
\<close>

theorem GetShare_foreign_share_distinguishable:
  "lookup_share ex_share_lib ex_shares (RefId ''s1'') = Inr (hd ex_shares)
   \<and> \<not> IsCreatedByUser ex_share_lib (hd ex_shares) ''mallory''
   \<and> \<not> IsGrantedToUser ex_share_lib (hd ex_shares) ''mallory''
   \<and> GetShare ex_share_lib ex_shares ''mallory'' (RefId ''s1'')
       = Inl (NotFound ''id:{opaque_id:s1}'')
   \<and> GetShare ex_share_lib ex_shares ''mallory'' (RefId ''s9'')
       = Inl (NotFound ''opaque_id:s9'')
   \<and> GetShare ex_share_lib (tl ex_shares) ''mallory'' (RefId ''s1'')
       = Inl (NotFound ''opaque_id:s1'')
   \<and> GetShare ex_share_lib ex_shares ''mallory'' (RefId ''s1'')
       \<noteq> GetShare ex_share_lib (tl ex_shares) ''mallory'' (RefId ''s1'')"
  by (simp add: GetShare_def get_share_def lookup_share_def ex_shares_def ex_share_lib_def)

text \<open>The grantee \<open>bob\<close> gets the share.\<close>

lemma GetShare_grantee:
  "GetShare ex_share_lib ex_shares ''bob'' (RefId ''s1'') = Inr (hd ex_shares)"
  by (simp add: GetShare_def get_share_def lookup_share_def ex_shares_def ex_share_lib_def)

end
